theory Spec2Isabelle
  imports Main
begin

text \<open>
  A model of \<^verbatim>\<open>server.js\<close>, the proxy server: the admin routes, the redirect-following
  fetcher, the tracker stripper, the rewriting of HTML, stylesheets and scripts, and the
  handler of \<^verbatim>\<open>GET /proxy/*\<close>. Functions keep the names of the source. What belongs to
  the platform is either written out after its specification (percent-encoding,
  regular expressions, string methods) or taken as a parameter (the URL constructor,
  the transport, the blocklist).
\<close>

section \<open>Strings\<close>

text \<open>
  A JavaScript string is modelled as a \<^typ>\<open>string\<close> holding its UTF-8 bytes. All
  patterns of \<^verbatim>\<open>server.js\<close> are ASCII, so \<^verbatim>\<open>startsWith\<close>, \<^verbatim>\<open>indexOf\<close>, \<^verbatim>\<open>split\<close>
  and the regular expressions read the bytes as they read the code units. The
  JavaScript white space beyond ASCII (U+00A0, U+1680, U+2000 to U+200A, U+2028,
  U+2029, U+202F, U+205F, U+3000, U+FEFF) is recognised in its UTF-8 form.
\<close>

definition dq :: char where
  "dq = CHR 0x22"

definition sq :: char where
  "sq = CHR 0x27"

definition startsWith :: "string \<Rightarrow> string \<Rightarrow> bool" where
  "startsWith s p \<longleftrightarrow> take (length p) s = p"

text \<open>\<^verbatim>\<open>s.includes(p)\<close>, also \<^verbatim>\<open>s.indexOf(p) !== -1\<close>.\<close>

fun js_includes :: "string \<Rightarrow> string \<Rightarrow> bool" where
  "js_includes [] p = (p = [])"
| "js_includes (c # cs) p = (startsWith (c # cs) p \<or> js_includes cs p)"

text \<open>Length in bytes of the white space character at the head of the text, 0 if none.\<close>

definition ws_len :: "string \<Rightarrow> nat" where
  "ws_len s =
     (case (map of_char (take 3 s) :: nat list) of
        [] \<Rightarrow> 0
      | b0 # bs \<Rightarrow>
          if b0 = 9 \<or> b0 = 10 \<or> b0 = 11 \<or> b0 = 12 \<or> b0 = 13 \<or> b0 = 32 then 1
          else if b0 = 0xC2 \<and> take 1 bs = [0xA0] then 2
          else if b0 = 0xE1 \<and> bs = [0x9A, 0x80] then 3
          else if b0 = 0xE2 \<and> take 1 bs = [0x80] \<and> length bs = 2 \<and>
                  ((0x80 \<le> bs ! 1 \<and> bs ! 1 \<le> 0x8A) \<or> bs ! 1 = 0xA8 \<or> bs ! 1 = 0xA9
                    \<or> bs ! 1 = 0xAF) then 3
          else if b0 = 0xE2 \<and> bs = [0x81, 0x9F] then 3
          else if b0 = 0xE3 \<and> bs = [0x80, 0x80] then 3
          else if b0 = 0xEF \<and> bs = [0xBB, 0xBF] then 3
          else 0)"

function trimStart :: "string \<Rightarrow> string" where
  "trimStart s = (let n = ws_len s in if n = 0 \<or> s = [] then s else trimStart (drop n s))"
  by pat_completeness auto
termination
  by (relation "measure length") auto

declare trimStart.simps [simp del]

text \<open>Length in bytes of the white space character at the end of the text, 0 if none.\<close>

definition ws_len_end :: "string \<Rightarrow> nat" where
  "ws_len_end s =
     (let n = length s in
      if 1 \<le> n \<and> ws_len (drop (n - 1) s) = 1 then 1
      else if 2 \<le> n \<and> ws_len (drop (n - 2) s) = 2 then 2
      else if 3 \<le> n \<and> ws_len (drop (n - 3) s) = 3 then 3
      else 0)"

function trimEnd :: "string \<Rightarrow> string" where
  "trimEnd s =
     (let n = ws_len_end s in if n = 0 \<or> s = [] then s else trimEnd (take (length s - n) s))"
  by pat_completeness auto
termination
  by (relation "measure length") auto

declare trimEnd.simps [simp del]

definition trim :: "string \<Rightarrow> string" where
  "trim s = trimEnd (trimStart s)"

text \<open>\<^verbatim>\<open>s.split(',')\<close>: the pieces between the separators; one (empty) piece for \<^verbatim>\<open>''\<close>.\<close>

fun split_on :: "char \<Rightarrow> string \<Rightarrow> string list" where
  "split_on d [] = [[]]"
| "split_on d (c # cs) =
     (if c = d then [] # split_on d cs
      else (case split_on d cs of p # ps \<Rightarrow> (c # p) # ps | [] \<Rightarrow> [[c]]))"

text \<open>\<^verbatim>\<open>xs.join(sep)\<close>.\<close>

fun join_with :: "string \<Rightarrow> string list \<Rightarrow> string" where
  "join_with sep [] = []"
| "join_with sep [x] = x"
| "join_with sep (x # y # ys) = x @ sep @ join_with sep (y # ys)"

text \<open>The decimal digits of a number, as a template literal prints it.\<close>

function show_nat :: "nat \<Rightarrow> string" where
  "show_nat n =
     (if n < 10 then [char_of (48 + n)] else show_nat (n div 10) @ [char_of (48 + n mod 10)])"
  by pat_completeness auto
termination
  by (relation "measure id") auto

declare show_nat.simps [simp del]

section \<open>Percent-encoding: \<^verbatim>\<open>encodeURIComponent\<close> and \<^verbatim>\<open>decodeURIComponent\<close>\<close>

text \<open>
  The two built-in functions, after ECMA-262 (Encode and Decode with the unreserved set
  of \<^verbatim>\<open>encodeURIComponent\<close> and the empty reserved set of \<^verbatim>\<open>decodeURIComponent\<close>).
  Both raise \<^verbatim>\<open>URIError\<close>, here \<open>None\<close>: the encoder on a string that is not well
  formed (a lone surrogate has no UTF-8 form), the decoder on a bad escape or on
  escapes that do not spell well-formed UTF-8.
\<close>

definition uriUnescaped :: "char \<Rightarrow> bool" where
  \<open>uriUnescaped c \<longleftrightarrow>
     c \<in> set ''ABCDEFGHIJKLMNOPQRSTUVWXYZabcdefghijklmnopqrstuvwxyz0123456789-_.!~*'()''\<close>

definition hexDigit :: "nat \<Rightarrow> char" where
  "hexDigit n = ''0123456789ABCDEF'' ! n"

definition hexValue :: "char \<Rightarrow> nat option" where
  "hexValue c =
     (let n = (of_char c :: nat) in
      if 48 \<le> n \<and> n \<le> 57 then Some (n - 48)
      else if 65 \<le> n \<and> n \<le> 70 then Some (n - 55)
      else if 97 \<le> n \<and> n \<le> 102 then Some (n - 87)
      else None)"

definition cont :: "nat \<Rightarrow> bool" where
  "cont b \<longleftrightarrow> 0x80 \<le> b \<and> b \<le> 0xBF"

text \<open>The number of bytes the lead byte announces, 0 for a byte that cannot lead.\<close>

definition utf8_need :: "nat \<Rightarrow> nat" where
  "utf8_need b0 =
     (if b0 < 0x80 then 1
      else if 0xC2 \<le> b0 \<and> b0 \<le> 0xDF then 2
      else if 0xE0 \<le> b0 \<and> b0 \<le> 0xEF then 3
      else if 0xF0 \<le> b0 \<and> b0 \<le> 0xF4 then 4
      else 0)"

text \<open>The range of the second byte: no overlong form, no surrogate, nothing above U+10FFFF.\<close>

definition second_ok :: "nat \<Rightarrow> nat \<Rightarrow> bool" where
  "second_ok b0 b1 =
     (if b0 = 0xE0 then 0xA0 \<le> b1 \<and> b1 \<le> 0xBF
      else if b0 = 0xED then 0x80 \<le> b1 \<and> b1 \<le> 0x9F
      else if b0 = 0xF0 then 0x90 \<le> b1 \<and> b1 \<le> 0xBF
      else if b0 = 0xF4 then 0x80 \<le> b1 \<and> b1 \<le> 0x8F
      else cont b1)"

text \<open>Length of the well-formed UTF-8 sequence at the head of the bytes, 0 if there is none.\<close>

definition utf8_len :: "nat list \<Rightarrow> nat" where
  "utf8_len bs =
     (case bs of
        [] \<Rightarrow> 0
      | b0 # ts \<Rightarrow>
          (let n = utf8_need b0 in
           if n \<le> 1 then n
           else if n - 1 \<le> length ts \<and> second_ok b0 (hd ts) \<and> list_all cont (take (n - 1) ts)
           then n else 0))"

function wellFormed :: "string \<Rightarrow> bool" where
  "wellFormed s =
     (if s = [] then True
      else (let n = utf8_len (map of_char (take 4 s)) in
            if n = 0 then False else wellFormed (drop n s)))"
  by pat_completeness auto
termination
  by (relation "measure length") auto

declare wellFormed.simps [simp del]

definition pctEncode :: "char \<Rightarrow> string" where
  "pctEncode c = [CHR ''%'', hexDigit (of_char c div 16), hexDigit (of_char c mod 16)]"

definition encodeURIComponent :: "string \<Rightarrow> string option" where
  "encodeURIComponent s =
     (if wellFormed s
      then Some (concat (map (\<lambda>c. if uriUnescaped c then [c] else pctEncode c) s))
      else None)"

datatype octet = Plain char | Escaped nat

fun unescape :: "string \<Rightarrow> octet list option" where
  "unescape [] = Some []"
| "unescape (c # cs) =
     (if c = CHR ''%'' then
        (case cs of
           h1 # h2 # cs' \<Rightarrow>
             (case (hexValue h1, hexValue h2) of
                (Some a, Some b) \<Rightarrow> map_option ((#) (Escaped (16 * a + b))) (unescape cs')
              | _ \<Rightarrow> None)
         | _ \<Rightarrow> None)
      else map_option ((#) (Plain c)) (unescape cs))"

fun escapedRun :: "octet list \<Rightarrow> nat list" where
  "escapedRun (Escaped b # os) = b # escapedRun os"
| "escapedRun _ = []"

function validEscapes :: "octet list \<Rightarrow> bool" where
  "validEscapes [] = True"
| "validEscapes (Plain c # os) = validEscapes os"
| "validEscapes (Escaped b # os) =
     (let n = utf8_len (take 4 (escapedRun (Escaped b # os)))
      in if n = 0 then False else validEscapes (drop (n - 1) os))"
  by pat_completeness auto
termination
  by (relation "measure length") auto

definition octetChar :: "octet \<Rightarrow> char" where
  "octetChar z = (case z of Plain c \<Rightarrow> c | Escaped b \<Rightarrow> char_of b)"

definition decodeURIComponent :: "string \<Rightarrow> string option" where
  "decodeURIComponent s =
     (case unescape s of
        None \<Rightarrow> None
      | Some os \<Rightarrow> if validEscapes os then Some (map octetChar os) else None)"

section \<open>Regular expressions\<close>

text \<open>
  The regular expressions of \<^verbatim>\<open>server.js\<close> are written in the abstract syntax below and
  run by a backtracking matcher that returns every way to match at the current position,
  in the order in which the ECMAScript matcher tries them (greedy before shorter, lazy
  before longer, left alternative first); the head of the list is the match of
  \<^verbatim>\<open>RegExp.prototype.exec\<close>. Under the flag \<^verbatim>\<open>i\<close> a literal compares ASCII letters
  without case; the classes of these patterns hold no letter.
\<close>

datatype regex =
    Eps
  | Lit char
  | OneOf "char list"
  | NoneOf "char list"
  | NoneOfWs "char list"
  | AnyChar
  | Digit
  | Space
  | WordBoundary
  | Seq regex regex
  | Alt regex regex
  | Star regex
  | LazyStar regex
  | Group nat regex
  | Backref nat

type_synonym captures = "(nat \<times> string) list"

datatype mstate = MState (before: string) (rest: string) (caps: captures)

definition Many1 :: "regex \<Rightarrow> regex" where
  "Many1 a = Seq a (Star a)"

definition LazyMany1 :: "regex \<Rightarrow> regex" where
  "LazyMany1 a = Seq a (LazyStar a)"

definition Opt :: "regex \<Rightarrow> regex" where
  "Opt a = Alt a Eps"

definition Str :: "string \<Rightarrow> regex" where
  "Str s = foldr (\<lambda>c r. Seq (Lit c) r) s Eps"

definition Seqs :: "regex list \<Rightarrow> regex" where
  "Seqs rs = foldr Seq rs Eps"

definition Alts :: "regex list \<Rightarrow> regex" where
  "Alts rs = foldr Alt (butlast rs) (last rs)"

definition ascii_lower :: "char \<Rightarrow> char" where
  "ascii_lower c =
     (let n = (of_char c :: nat) in if 65 \<le> n \<and> n \<le> 90 then char_of (n + 32) else c)"

definition ceq :: "bool \<Rightarrow> char \<Rightarrow> char \<Rightarrow> bool" where
  "ceq ic x c = (if ic then ascii_lower x = ascii_lower c else x = c)"

definition is_digit :: "char \<Rightarrow> bool" where
  "is_digit c = (let n = (of_char c :: nat) in 48 \<le> n \<and> n \<le> 57)"

definition is_word :: "char \<Rightarrow> bool" where
  "is_word c =
     (let n = (of_char c :: nat) in
      (48 \<le> n \<and> n \<le> 57) \<or> (65 \<le> n \<and> n \<le> 90) \<or> (97 \<le> n \<and> n \<le> 122) \<or> n = 95)"

definition step1 :: "(char \<Rightarrow> bool) \<Rightarrow> mstate \<Rightarrow> mstate list" where
  "step1 p st =
     (case rest st of
        [] \<Rightarrow> []
      | x # xs \<Rightarrow> if p x then [MState (x # before st) xs (caps st)] else [])"

fun groups :: "regex \<Rightarrow> nat list" where
  "groups (Seq a b) = groups a @ groups b"
| "groups (Alt a b) = groups a @ groups b"
| "groups (Star a) = groups a"
| "groups (LazyStar a) = groups a"
| "groups (Group n a) = n # groups a"
| "groups _ = []"

text \<open>Each round of a repetition starts with the captures of its body undefined.\<close>

definition uncap :: "nat list \<Rightarrow> mstate \<Rightarrow> mstate" where
  "uncap ns st =
     (if ns = [] then st
      else MState (before st) (rest st) (filter (\<lambda>(k, v). k \<notin> set ns) (caps st)))"

function rmatch :: "bool \<Rightarrow> regex \<Rightarrow> mstate \<Rightarrow> mstate list" where
  "rmatch ic Eps st = [st]"
| "rmatch ic (Lit c) st = step1 (\<lambda>x. ceq ic x c) st"
| "rmatch ic (OneOf cs) st = step1 (\<lambda>x. x \<in> set cs) st"
| "rmatch ic (NoneOf cs) st = step1 (\<lambda>x. x \<notin> set cs) st"
| "rmatch ic (NoneOfWs cs) st =
     (if ws_len (rest st) = 0 then step1 (\<lambda>x. x \<notin> set cs) st else [])"
| "rmatch ic AnyChar st = step1 (\<lambda>x. True) st"
| "rmatch ic Digit st = step1 is_digit st"
| "rmatch ic Space st =
     (let n = ws_len (rest st) in
      if n = 0 then []
      else [MState (rev (take n (rest st)) @ before st) (drop n (rest st)) (caps st)])"
| "rmatch ic WordBoundary st =
     (let a = (case before st of [] \<Rightarrow> False | x # _ \<Rightarrow> is_word x);
          b = (case rest st of [] \<Rightarrow> False | x # _ \<Rightarrow> is_word x)
      in if a \<noteq> b then [st] else [])"
| "rmatch ic (Seq a b) st = concat (map (rmatch ic b) (rmatch ic a st))"
| "rmatch ic (Alt a b) st = rmatch ic a st @ rmatch ic b st"
| "rmatch ic (Star a) st =
     concat (map (\<lambda>st'. if length (rest st') < length (rest st)
                         then rmatch ic (Star a) st' else [])
                 (rmatch ic a (uncap (groups a) st))) @ [st]"
| "rmatch ic (LazyStar a) st =
     st # concat (map (\<lambda>st'. if length (rest st') < length (rest st)
                              then rmatch ic (LazyStar a) st' else [])
                      (rmatch ic a (uncap (groups a) st)))"
| "rmatch ic (Group n a) st =
     map (\<lambda>st'. MState (before st') (rest st')
                   ((n, take (length (rest st) - length (rest st')) (rest st)) # caps st'))
         (rmatch ic a st)"
| "rmatch ic (Backref n) st =
     (case map_of (caps st) n of
        None \<Rightarrow> [st]
      | Some s \<Rightarrow>
          if length s \<le> length (rest st) \<and> list_all2 (ceq ic) (take (length s) (rest st)) s
          then [MState (rev (take (length s) (rest st)) @ before st)
                       (drop (length s) (rest st)) (caps st)]
          else [])"
  by pat_completeness auto
termination
  by (relation "inv_image (less_than <*lex*> less_than)
        (\<lambda>(ic, r, st). (size r, length (rest st)))") auto

text \<open>The capture \<open>n\<close> of a match; every group read by the callbacks below takes part in
  every match of its pattern.\<close>

definition group :: "captures \<Rightarrow> nat \<Rightarrow> string" where
  "group cs n = (case map_of cs n of Some s \<Rightarrow> s | None \<Rightarrow> [])"

text \<open>
  The scan of a global \<^verbatim>\<open>replace\<close>: the text cut into the characters no match covers and
  the matches, each with its captures. The search resumes after a match; after an
  empty match it steps over one character.
\<close>

datatype segment = Skipped char | Matched string captures

function segments :: "bool \<Rightarrow> regex \<Rightarrow> string \<Rightarrow> string \<Rightarrow> segment list" where
  "segments ic re l r =
     (case rmatch ic re (MState l r []) of
        [] \<Rightarrow> (case r of [] \<Rightarrow> [] | c # cs \<Rightarrow> Skipped c # segments ic re (c # l) cs)
      | st # _ \<Rightarrow>
          (let m = take (length r - length (rest st)) r in
           if m = [] then
             Matched [] (caps st) #
               (case r of [] \<Rightarrow> [] | c # cs \<Rightarrow> Skipped c # segments ic re (c # l) cs)
           else Matched m (caps st) # segments ic re (rev m @ l) (drop (length m) r)))"
  by pat_completeness auto
termination
  by (relation "measure (\<lambda>(ic, re, l, r). length r)") auto

declare segments.simps [simp del]

definition raw_text :: "segment \<Rightarrow> string" where
  "raw_text g = (case g of Skipped c \<Rightarrow> [c] | Matched m cs \<Rightarrow> m)"

text \<open>\<^verbatim>\<open>s.replace(re, f)\<close> with a global \<^verbatim>\<open>re\<close> and a callback \<^verbatim>\<open>f\<close>.\<close>

definition replace_g ::
  "bool \<Rightarrow> regex \<Rightarrow> (string \<Rightarrow> captures \<Rightarrow> string) \<Rightarrow> string \<Rightarrow> string" where
  "replace_g ic re f s =
     concat (map (\<lambda>g. case g of Skipped c \<Rightarrow> [c] | Matched m cs \<Rightarrow> f m cs)
                 (segments ic re [] s))"

text \<open>\<^verbatim>\<open>s.match(re)\<close> with a \<^verbatim>\<open>re\<close> that is not global: the captures of the first match.\<close>

fun first_match :: "segment list \<Rightarrow> captures option" where
  "first_match [] = None"
| "first_match (Skipped c # gs) = first_match gs"
| "first_match (Matched m cs # gs) = Some cs"

definition match1 :: "bool \<Rightarrow> regex \<Rightarrow> string \<Rightarrow> captures option" where
  "match1 ic re s = first_match (segments ic re [] s)"

text \<open>
  \<^verbatim>\<open>s.split(re)\<close> for a pattern that matches no empty text (the one use is
  \<^verbatim>\<open>/\s+/\<close>): the pieces between the matches.
\<close>

fun pieces :: "string \<Rightarrow> segment list \<Rightarrow> string list" where
  "pieces cur [] = [rev cur]"
| "pieces cur (Skipped c # gs) = pieces (c # cur) gs"
| "pieces cur (Matched m cs # gs) = rev cur # pieces [] gs"

definition split_re :: "regex \<Rightarrow> string \<Rightarrow> string list" where
  "split_re re s = pieces [] (segments False re [] s)"

section \<open>The platform's URL constructor and errors\<close>

text \<open>
  \<^verbatim>\<open>new URL(input, base)\<close> is the platform's: the functions below take it as the
  parameter \<open>newURL\<close>, \<open>None\<close> where the constructor throws (\<^verbatim>\<open>TypeError: Invalid URL\<close>).
  Of the object it builds the code reads \<^verbatim>\<open>href\<close>, \<^verbatim>\<open>protocol\<close> and \<^verbatim>\<open>hostname\<close>.
\<close>

record URL =
  href :: string
  protocol :: string
  hostname :: string

type_synonym url_api = "string \<Rightarrow> string option \<Rightarrow> URL option"

datatype js_error = JsError string | JsTypeError string | JsURIError string

definition message :: "js_error \<Rightarrow> string" where
  "message e = (case e of JsError m \<Rightarrow> m | JsTypeError m \<Rightarrow> m | JsURIError m \<Rightarrow> m)"

definition invalid_url :: js_error where
  "invalid_url = JsTypeError ''Invalid URL''"

section \<open>Rewrite engine (\<^verbatim>\<open>rewriteUrls\<close>, lines 113 to 176)\<close>

text \<open>Line 119: the five entity replacements, in the order of the source.\<close>

definition decodeEntities :: "string \<Rightarrow> string" where
  "decodeEntities raw =
     replace_g False (Str ''&#39;'') (\<lambda>m cs. [sq])
       (replace_g False (Str ''&quot;'') (\<lambda>m cs. [dq])
         (replace_g False (Str ''&gt;'') (\<lambda>m cs. ''>'')
           (replace_g False (Str ''&lt;'') (\<lambda>m cs. ''<'')
             (replace_g False (Str ''&amp;'') (\<lambda>m cs. ''&'') raw))))"

text \<open>
  Lines 116 to 125. The assignment to \<^verbatim>\<open>raw\<close> (line 119) is inside the \<^verbatim>\<open>try\<close>, so what
  the \<^verbatim>\<open>catch\<close> returns is the decoded text.
\<close>

definition toProxyUrl :: "url_api \<Rightarrow> string \<Rightarrow> string \<Rightarrow> string" where
  "toProxyUrl newURL baseUrl raw =
     (let raw' = decodeEntities raw in
      case newURL raw' (Some baseUrl) of
        None \<Rightarrow> raw'
      | Some resolved \<Rightarrow>
          (case encodeURIComponent (href resolved) of
             None \<Rightarrow> raw'
           | Some e \<Rightarrow> ''/proxy/'' @ e))"

text \<open>Lines 129 and 136: \<^verbatim>\<open>/(<[^>]+\s)(href|src|action)\s*=\s*"([^"]*?)"/gi\<close>, with the quote \<open>q\<close>.\<close>

definition attr_re :: "char \<Rightarrow> regex" where
  "attr_re q =
     Seqs [Group 1 (Seqs [Lit CHR ''<'', Many1 (NoneOf ''>''), Space]),
           Group 2 (Alts [Str ''href'', Str ''src'', Str ''action'']),
           Star Space, Lit CHR ''='', Star Space, Lit q,
           Group 3 (LazyStar (NoneOf [q])), Lit q]"

definition exempt_attr :: "string \<Rightarrow> bool" where
  "exempt_attr url \<longleftrightarrow>
     startsWith url ''data:'' \<or> startsWith url ''javascript:'' \<or> startsWith url ''#''"

definition attr_callback :: "url_api \<Rightarrow> string \<Rightarrow> char \<Rightarrow> string \<Rightarrow> captures \<Rightarrow> string" where
  "attr_callback newURL baseUrl q m cs =
     (let url = group cs 3 in
      if exempt_attr url then m
      else group cs 1 @ group cs 2 @ [CHR ''='', q] @ toProxyUrl newURL baseUrl url @ [q])"

definition rewriteAttrs :: "url_api \<Rightarrow> string \<Rightarrow> char \<Rightarrow> string \<Rightarrow> string" where
  "rewriteAttrs newURL baseUrl q html =
     replace_g True (attr_re q) (attr_callback newURL baseUrl q) html"

text \<open>Lines 144 to 154: \<^verbatim>\<open>/srcset\s*=\s*"([^"]*)"/gi\<close>.\<close>

definition srcset_re :: regex where
  "srcset_re =
     Seqs [Str ''srcset'', Star Space, Lit CHR ''='', Star Space, Lit dq,
           Group 1 (Star (NoneOf [dq])), Lit dq]"

definition srcset_entry :: "url_api \<Rightarrow> string \<Rightarrow> string \<Rightarrow> string" where
  "srcset_entry newURL baseUrl entry =
     (case split_re (Many1 Space) (trim entry) of
        [] \<Rightarrow> []
      | p # ps \<Rightarrow>
          join_with '' '' ((if p \<noteq> [] then toProxyUrl newURL baseUrl p else p) # ps))"

definition srcset_callback :: "url_api \<Rightarrow> string \<Rightarrow> string \<Rightarrow> captures \<Rightarrow> string" where
  "srcset_callback newURL baseUrl m cs =
     ''srcset='' @ [dq]
       @ join_with '', '' (map (srcset_entry newURL baseUrl) (split_on CHR '','' (group cs 1)))
       @ [dq]"

text \<open>Lines 158 to 162: \<^verbatim>\<open>/<script[\s\S]*?<\/script>/gi\<close>; the callback pushes the match and
  leaves a numbered placeholder.\<close>

definition script_re :: regex where
  "script_re = Seqs [Str ''<script'', LazyStar AnyChar, Str ''</script>'']"

fun protect :: "segment list \<Rightarrow> string list \<Rightarrow> string \<times> string list" where
  "protect [] scripts = ([], scripts)"
| "protect (Skipped c # gs) scripts =
     (let (out, scripts') = protect gs scripts in (c # out, scripts'))"
| "protect (Matched m cs # gs) scripts =
     (let (out, scripts') = protect gs (scripts @ [m])
      in (''<!--DS'' @ show_nat (length scripts) @ ''-->'' @ out, scripts'))"

text \<open>Lines 164 to 170 and 413, 475: \<^verbatim>\<open>/url\(\s*['"]?([^'")]+?)['"]?\s*\)/gi\<close>.\<close>

definition url_re :: regex where
  "url_re =
     Seqs [Str ''url('', Star Space, Opt (OneOf [sq, dq]),
           Group 1 (LazyMany1 (NoneOf [sq, dq, CHR '')''])),
           Opt (OneOf [sq, dq]), Star Space, Lit CHR '')'']"

definition url_callback :: "url_api \<Rightarrow> string \<Rightarrow> string \<Rightarrow> captures \<Rightarrow> string" where
  "url_callback newURL baseUrl m cs =
     (let url = group cs 1 in
      if startsWith url ''data:'' then m
      else ''url('' @ [sq] @ toProxyUrl newURL baseUrl url @ [sq] @ '')'')"

text \<open>
  Line 173: \<^verbatim>\<open>/<!--DS(\d+)-->/g\<close> with \<^verbatim>\<open>scripts[i]\<close>, \<^verbatim>\<open>i\<close> the digits as a string: an
  array element when they are the decimal form of an index in range, \<^verbatim>\<open>undefined\<close>
  (printed by \<^verbatim>\<open>replace\<close>) otherwise.
\<close>

definition restore_re :: regex where
  "restore_re = Seqs [Str ''<!--DS'', Group 1 (Many1 Digit), Str ''-->'']"

definition digits_value :: "string \<Rightarrow> nat" where
  "digits_value ds = foldl (\<lambda>n c. 10 * n + (of_char c - 48)) 0 ds"

definition restore_callback :: "string list \<Rightarrow> string \<Rightarrow> captures \<Rightarrow> string" where
  "restore_callback scripts m cs =
     (let i = group cs 1; k = digits_value i in
      if show_nat k = i \<and> k < length scripts then scripts ! k else ''undefined'')"

definition rewriteUrls :: "url_api \<Rightarrow> string \<Rightarrow> string \<Rightarrow> js_error + string" where
  "rewriteUrls newURL html baseUrl =
     (case newURL baseUrl None of
        None \<Rightarrow> Inl invalid_url
      | Some base \<Rightarrow>
          (let html1 = rewriteAttrs newURL baseUrl dq html;
               html2 = rewriteAttrs newURL baseUrl sq html1;
               html3 = replace_g True srcset_re (srcset_callback newURL baseUrl) html2;
               (html4, scripts) = protect (segments True script_re [] html3) [];
               html5 = replace_g True url_re (url_callback newURL baseUrl) html4
           in Inr (replace_g False restore_re (restore_callback scripts) html5)))"

section \<open>Tracker stripper (\<^verbatim>\<open>stripTrackingElements\<close>, lines 178 to 189)\<close>

definition width_or_height :: regex where
  "width_or_height = Alt (Str ''width'') (Str ''height'')"

definition quote_opt :: regex where
  "quote_opt = Opt (OneOf [dq, sq])"

text \<open>Line 180: \<^verbatim>\<open>/<img[^>]+(?:width|height)\s*=\s*["']?1["']?[^>]+(?:width|height)\s*=\s*["']?1["']?[^>]*\/?>/gi\<close>.\<close>

definition pixel_re :: regex where
  "pixel_re =
     Seqs [Str ''<img'', Many1 (NoneOf ''>''),
           width_or_height, Star Space, Lit CHR ''='', Star Space,
           quote_opt, Lit CHR ''1'', quote_opt, Many1 (NoneOf ''>''),
           width_or_height, Star Space, Lit CHR ''='', Star Space,
           quote_opt, Lit CHR ''1'', quote_opt, Star (NoneOf ''>''),
           Opt (Lit CHR ''/''), Lit CHR ''>'']"

text \<open>Line 183: inline scripts that name a tracking vendor.\<close>

definition tracker_script_re :: regex where
  "tracker_script_re =
     Seqs [Str ''<script'', Star (NoneOf ''>''), Lit CHR ''>'', Star (NoneOf ''<''),
           Alts [Str ''google-analytics'', Str ''googletagmanager'', Str ''gtag'', Str ''fbq'',
                 Str ''_gaq'', Seqs [Str ''ga'', Star Space, Lit CHR ''(''],
                 Str ''analytics.js'', Str ''adsbygoogle'', Str ''googlesyndication'',
                 Str ''doubleclick'', Str ''hotjar'', Str ''clarity'', Str ''mixpanel'',
                 Str ''segment'', Str ''amplitude'', Str ''heap''],
           Star (NoneOf ''<''), Str ''</script>'']"

text \<open>Line 186: \<^verbatim>\<open>noscript\<close> pixels.\<close>

definition noscript_re :: regex where
  "noscript_re =
     Seqs [Str ''<noscript'', Star (NoneOf ''>''), Lit CHR ''>'', Star Space,
           Str ''<img'', Many1 (NoneOf ''>''),
           Alts [Str ''facebook.com/tr'', Str ''google-analytics'', Str ''googletagmanager'',
                 Str ''bat.bing'', Str ''analytics''],
           Star (NoneOf ''>''), Opt (Lit CHR ''/''), Lit CHR ''>'', Star Space,
           Str ''</noscript>'']"

definition stripTrackingElements :: "string \<Rightarrow> string" where
  "stripTrackingElements html =
     replace_g True noscript_re (\<lambda>m cs. [])
       (replace_g True tracker_script_re (\<lambda>m cs. [])
         (replace_g True pixel_re (\<lambda>m cs. []) html))"

section \<open>Stylesheet and script rewriting (lines 410 to 506)\<close>

text \<open>Lines 413 to 424: on a failure the \<^verbatim>\<open>catch\<close> returns the match.\<close>

definition css_callback :: "url_api \<Rightarrow> string \<Rightarrow> string \<Rightarrow> captures \<Rightarrow> string" where
  "css_callback newURL finalUrl m cs =
     (let url = group cs 1 in
      if startsWith url ''data:'' then m
      else (case newURL url (Some finalUrl) of
              None \<Rightarrow> m
            | Some resolved \<Rightarrow>
                (case encodeURIComponent (href resolved) of
                   None \<Rightarrow> m
                 | Some e \<Rightarrow> ''url('' @ [sq] @ ''/proxy/'' @ e @ [sq] @ '')'')))"

definition rewriteCss :: "url_api \<Rightarrow> string \<Rightarrow> string \<Rightarrow> string" where
  "rewriteCss newURL finalUrl css = replace_g True url_re (css_callback newURL finalUrl) css"

text \<open>Lines 430 to 437.\<close>

definition resolveJsPath :: "url_api \<Rightarrow> string \<Rightarrow> string \<Rightarrow> string" where
  "resolveJsPath newURL finalUrl relPath =
     (case newURL relPath (Some finalUrl) of
        None \<Rightarrow> relPath
      | Some resolved \<Rightarrow>
          (case encodeURIComponent (href resolved) of
             None \<Rightarrow> relPath
           | Some e \<Rightarrow> ''/proxy/'' @ e))"

definition quote_re :: regex where
  "quote_re = OneOf [dq, sq]"

text \<open>The relative path \<^verbatim>\<open>\.\.?\/[^"']+\<close> of the import patterns.\<close>

definition rel_path_re :: regex where
  "rel_path_re = Seqs [Lit CHR ''.'', Opt (Lit CHR ''.''), Lit CHR ''/'', Many1 (NoneOf [dq, sq])]"

text \<open>Lines 441 and 447: \<^verbatim>\<open>/(\bfrom\s*)(["'])(\.\.?\/[^"']+)\2/g\<close>, and the same with
  \<^verbatim>\<open>import\<close>.\<close>

definition import_re :: "string \<Rightarrow> regex" where
  "import_re kw =
     Seqs [Group 1 (Seqs [WordBoundary, Str kw, Star Space]), Group 2 quote_re,
           Group 3 rel_path_re, Backref 2]"

definition import_callback :: "url_api \<Rightarrow> string \<Rightarrow> string \<Rightarrow> captures \<Rightarrow> string" where
  "import_callback newURL finalUrl m cs =
     group cs 1 @ group cs 2 @ resolveJsPath newURL finalUrl (group cs 3) @ group cs 2"

text \<open>Line 453: \<^verbatim>\<open>/(\bimport\s*\(\s*)(["'])(\.\.?\/[^"']+)\2(\s*\))/g\<close>.\<close>

definition dynamic_import_re :: regex where
  "dynamic_import_re =
     Seqs [Group 1 (Seqs [WordBoundary, Str ''import'', Star Space, Lit CHR ''('', Star Space]),
           Group 2 quote_re, Group 3 rel_path_re, Backref 2,
           Group 4 (Seqs [Star Space, Lit CHR '')''])]"

definition dynamic_import_callback ::
  "url_api \<Rightarrow> string \<Rightarrow> string \<Rightarrow> captures \<Rightarrow> string" where
  "dynamic_import_callback newURL finalUrl m cs =
     group cs 1 @ group cs 2 @ resolveJsPath newURL finalUrl (group cs 3) @ group cs 2
       @ group cs 4"

text \<open>Line 460: \<^verbatim>\<open>/(\[(?:\s*"(?:assets\/[^"]+)"(?:\s*,)?)+\s*\])/g\<close>, and inside a match
  line 462: \<^verbatim>\<open>/"(assets\/[^"]+)"/g\<close>.\<close>

definition assets_list_re :: regex where
  "assets_list_re =
     Group 1 (Seqs [Lit CHR ''['',
                    Many1 (Seqs [Star Space, Lit dq, Str ''assets/'', Many1 (NoneOf [dq]), Lit dq,
                                 Opt (Seqs [Star Space, Lit CHR '',''])]),
                    Star Space, Lit CHR '']''])"

definition asset_re :: regex where
  "asset_re = Seqs [Lit dq, Group 1 (Seqs [Str ''assets/'', Many1 (NoneOf [dq])]), Lit dq]"

definition asset_callback :: "url_api \<Rightarrow> string \<Rightarrow> string \<Rightarrow> captures \<Rightarrow> string" where
  "asset_callback newURL finalUrl m cs =
     (case newURL (''/'' @ group cs 1) (Some finalUrl) of
        None \<Rightarrow> m
      | Some resolved \<Rightarrow>
          (case encodeURIComponent (href resolved) of
             None \<Rightarrow> m
           | Some e \<Rightarrow> [dq] @ ''/proxy/'' @ e @ [dq]))"

text \<open>Line 475: \<^verbatim>\<open>/url\(\s*['"]?(\.\.?\/[^'")]+?)['"]?\s*\)/gi\<close>.\<close>

definition js_url_re :: regex where
  "js_url_re =
     Seqs [Str ''url('', Star Space, Opt (OneOf [sq, dq]),
           Group 1 (Seqs [Lit CHR ''.'', Opt (Lit CHR ''.''), Lit CHR ''/'',
                          LazyMany1 (NoneOf [sq, dq, CHR '')''])]),
           Opt (OneOf [sq, dq]), Star Space, Lit CHR '')'']"

definition js_url_callback :: "url_api \<Rightarrow> string \<Rightarrow> string \<Rightarrow> captures \<Rightarrow> string" where
  "js_url_callback newURL finalUrl m cs =
     (let url = group cs 1 in
      if startsWith url ''data:'' then m
      else ''url('' @ [sq] @ resolveJsPath newURL finalUrl url @ [sq] @ '')'')"

text \<open>Line 484: \<^verbatim>\<open>/new\s+URL\(\s*(["'])([^"']+)\1\s*,\s*import\.meta\.url\s*\)/g\<close>.\<close>

definition new_url_re :: regex where
  "new_url_re =
     Seqs [Str ''new'', Many1 Space, Str ''URL('', Star Space, Group 1 quote_re,
           Group 2 (Many1 (NoneOf [dq, sq])), Backref 1, Star Space, Lit CHR '','', Star Space,
           Str ''import.meta.url'', Star Space, Lit CHR '')'']"

definition new_url_callback :: "url_api \<Rightarrow> string \<Rightarrow> string \<Rightarrow> captures \<Rightarrow> string" where
  "new_url_callback newURL finalUrl m cs =
     (let quote = group cs 1; path = group cs 2 in
      if startsWith path ''data:'' \<or> startsWith path ''http:'' \<or> startsWith path ''https:''
           \<or> startsWith path ''/proxy/'' then m
      else ''new URL('' @ quote @ resolveJsPath newURL finalUrl path @ quote
             @ '', import.meta.url)'')"

text \<open>Line 494: quoted root-relative paths that end in a known asset extension.\<close>

definition asset_path_re :: regex where
  "asset_path_re =
     Seqs [Group 1 quote_re,
           Group 2 (Seqs [Lit CHR ''/'', Star (NoneOf [dq, sq]), Lit CHR ''.'',
                          Alts [Seqs [Str ''woff'', Opt (Lit CHR ''2'')], Str ''ttf'', Str ''otf'',
                                Str ''eot'', Str ''png'',
                                Seqs [Str ''jp'', Opt (Lit CHR ''e''), Lit CHR ''g''],
                                Str ''gif'', Str ''svg'', Str ''webp'', Str ''avif'', Str ''ico'',
                                Seqs [Str ''mp'', OneOf ''34''], Str ''webm'', Str ''ogg'',
                                Str ''wav'', Str ''json'']]),
           Backref 1]"

definition asset_path_callback :: "url_api \<Rightarrow> string \<Rightarrow> string \<Rightarrow> captures \<Rightarrow> string" where
  "asset_path_callback newURL finalUrl m cs =
     (let quote = group cs 1; path = group cs 2 in
      if startsWith path ''/proxy/'' then m
      else (case newURL path (Some finalUrl) of
              None \<Rightarrow> m
            | Some resolved \<Rightarrow>
                (case encodeURIComponent (href resolved) of
                   None \<Rightarrow> m
                 | Some e \<Rightarrow> quote @ ''/proxy/'' @ e @ quote)))"

definition rewriteJs :: "url_api \<Rightarrow> string \<Rightarrow> string \<Rightarrow> string" where
  "rewriteJs newURL finalUrl js =
     (let js1 = replace_g False (import_re ''from'') (import_callback newURL finalUrl) js;
          js2 = replace_g False (import_re ''import'') (import_callback newURL finalUrl) js1;
          js3 = replace_g False dynamic_import_re (dynamic_import_callback newURL finalUrl) js2;
          js4 = replace_g False assets_list_re
                  (\<lambda>m cs. replace_g False asset_re (asset_callback newURL finalUrl) m) js3;
          js5 = replace_g True js_url_re (js_url_callback newURL finalUrl) js4;
          js6 = replace_g False new_url_re (new_url_callback newURL finalUrl) js5
      in replace_g True asset_path_re (asset_path_callback newURL finalUrl) js6)"

section \<open>Process state and the admin routes (lines 42 to 52)\<close>

record ProxyState =
  blockedCount :: nat
  adBlockEnabled :: bool

definition initial_state :: ProxyState where
  "initial_state = \<lparr>blockedCount = 0, adBlockEnabled = True\<rparr>"

text \<open>A value of the parsed request body, as far as the comparison with \<^verbatim>\<open>false\<close> tells
  values apart.\<close>

datatype json = JNull | JBool bool | JNumber int | JString string | JArray | JObject

datatype payload =
    NoBody
  | ErrorJson string
  | EnabledJson bool
  | CountJson nat
  | Content string string

record response =
  status :: nat
  payload :: payload

text \<open>Line 50: \<^verbatim>\<open>req.body.enabled\<close> is \<open>None\<close> when the parsed body has no such field.\<close>

definition post_adblock :: "ProxyState \<Rightarrow> json option \<Rightarrow> ProxyState \<times> response" where
  "post_adblock st enabled =
     (let st' = st\<lparr>adBlockEnabled := (enabled \<noteq> Some (JBool False))\<rparr>
      in (st', \<lparr>status = 200, payload = EnabledJson (adBlockEnabled st')\<rparr>))"

definition get_blocked_count :: "ProxyState \<Rightarrow> response" where
  "get_blocked_count st = \<lparr>status = 200, payload = CountJson (blockedCount st)\<rparr>"

section \<open>Fetcher (\<^verbatim>\<open>fetchWithRedirects\<close>, lines 54 to 111)\<close>

definition MAX_REDIRECTS :: nat where
  "MAX_REDIRECTS = 10"

record FetchResult =
  statusCode :: nat
  headers :: "(string \<times> string) list"
  body :: string
  finalUrl :: string

datatype fetch_outcome = Failed js_error | Fetched FetchResult

text \<open>
  What the transport does with one request: the events it raises on it, in order. A
  \<open>Response\<close> is a response read to its end (status, headers under their lower-case
  names, body), a \<open>RequestError\<close>
  the \<^verbatim>\<open>error\<close> event, \<open>Timeout\<close> the firing of the 10 second timer. The upstream is the
  parameter \<open>net\<close>, asked with the number of the hop, the URL and the \<^verbatim>\<open>Accept\<close> header.
\<close>

datatype hop_event =
    Response nat "(string \<times> string) list" string
  | RequestError js_error
  | Timeout

text \<open>
  What a run does, in order: a request issued upstream, a call of the callback, an
  exception no handler catches, an exception thrown to the framework, a response sent
  to the client.
\<close>

datatype event =
    Requested string
  | Callback fetch_outcome
  | Uncaught js_error
  | Thrown js_error
  | Sent response

definition unsupported_protocol :: "string \<Rightarrow> js_error" where
  "unsupported_protocol p =
     JsTypeError (''Protocol '' @ [dq] @ p @ [dq] @ '' not supported. Expected '' @ [dq]
                   @ ''http:'' @ [dq])"

type_synonym upstream = "nat \<Rightarrow> string \<Rightarrow> string \<Rightarrow> hop_event list"

text \<open>Line 66: \<^verbatim>\<open>(options && options.accept) || '*/*'\<close>.\<close>

definition accept_of :: "string option \<Rightarrow> string" where
  "accept_of options = (case options of None \<Rightarrow> ''*/*'' | Some a \<Rightarrow> if a = [] then ''*/*'' else a)"

function fetchWithRedirects ::
  "url_api \<Rightarrow> upstream \<Rightarrow> string \<Rightarrow> nat \<Rightarrow> string option \<Rightarrow> event list" where
  "fetchWithRedirects newURL net targetUrl redirectCount options =
     (if redirectCount > MAX_REDIRECTS then [Callback (Failed (JsError ''Too many redirects''))]
      else
        (case newURL targetUrl None of
           None \<Rightarrow> [Callback (Failed invalid_url)]
         | Some parsedUrl \<Rightarrow>
             if protocol parsedUrl \<noteq> ''https:'' \<and> protocol parsedUrl \<noteq> ''http:''
             then [Callback (Failed (unsupported_protocol (protocol parsedUrl)))]
             else
               Requested targetUrl #
               concat (map (\<lambda>ev.
                 case ev of
                   Response code hdrs data \<Rightarrow>
                     (case map_of hdrs ''location'' of
                        None \<Rightarrow>
                          [Callback (Fetched \<lparr>statusCode = code, headers = hdrs, body = data,
                                               finalUrl = targetUrl\<rparr>)]
                      | Some location \<Rightarrow>
                          if 300 \<le> code \<and> code < 400 \<and> location \<noteq> [] then
                            (case newURL location (Some targetUrl) of
                               None \<Rightarrow> [Uncaught invalid_url]
                             | Some redirectUrl \<Rightarrow>
                                 fetchWithRedirects newURL net (href redirectUrl)
                                   (redirectCount + 1) options)
                          else
                            [Callback (Fetched \<lparr>statusCode = code, headers = hdrs, body = data,
                                                 finalUrl = targetUrl\<rparr>)])
                 | RequestError err \<Rightarrow> [Callback (Failed err)]
                 | Timeout \<Rightarrow> [Callback (Failed (JsError ''Request timed out''))])
                 (net redirectCount targetUrl (accept_of options)))))"
  by pat_completeness auto
termination
  by (relation "measure (\<lambda>(newURL, net, targetUrl, redirectCount, options).
        Suc MAX_REDIRECTS - redirectCount)") auto

declare fetchWithRedirects.simps [simp del]

section \<open>Dispatcher (\<^verbatim>\<open>GET /proxy/*\<close>, lines 326 to 511)\<close>

text \<open>
  Of a request the handler reads \<^verbatim>\<open>req.params[0]\<close>, the entries of \<^verbatim>\<open>req.query\<close> and the
  \<^verbatim>\<open>Accept\<close> header. \<^verbatim>\<open>isBlocked\<close> comes from \<^verbatim>\<open>./blocklist\<close>, which is not part of the
  source at hand, and is a parameter; so are the platform's
  \<^verbatim>\<open>searchParams.append\<close> (\<open>appendQuery\<close>, giving the \<^verbatim>\<open>href\<close> after the appends),
  \<^verbatim>\<open>Buffer.toString\<close> (\<open>toText\<close>, \<open>None\<close> for an encoding it does not know) and the
  text built by \<^verbatim>\<open>injectMetaScript\<close> (\<open>inject\<close>, lines 191 to 324). A response is its
  status, its \<^verbatim>\<open>Content-Type\<close> and its body; the fixed headers of lines 375 to 398 are
  the same on every proxied response and are left out.
\<close>

record request =
  params0 :: string
  query :: "(string \<times> string) list"
  accept :: "string option"

datatype dispatch = Reply response | Forward string string

text \<open>Lines 327 to 356, up to the call of the fetcher.\<close>

definition proxy_dispatch ::
  "url_api \<Rightarrow> (string \<Rightarrow> bool) \<Rightarrow> (URL \<Rightarrow> (string \<times> string) list \<Rightarrow> string)
     \<Rightarrow> ProxyState \<Rightarrow> request \<Rightarrow> (js_error + dispatch) \<times> ProxyState" where
  "proxy_dispatch newURL isBlocked appendQuery st req =
     (case decodeURIComponent (params0 req) of
        None \<Rightarrow> (Inl (JsURIError ''URI malformed''), st)
      | Some targetUrl \<Rightarrow>
          if targetUrl = [] then
            (Inr (Reply \<lparr>status = 400, payload = ErrorJson ''Missing target URL''\<rparr>), st)
          else if adBlockEnabled st \<and>
                  (case newURL targetUrl None of
                     None \<Rightarrow> False
                   | Some u \<Rightarrow> isBlocked (hostname u)) then
            (Inr (Reply \<lparr>status = 204, payload = NoBody\<rparr>),
             st\<lparr>blockedCount := blockedCount st + 1\<rparr>)
          else if query req \<noteq> [] then
            (case newURL targetUrl None of
               None \<Rightarrow> (Inl invalid_url, st)
             | Some parsed \<Rightarrow>
                 (Inr (Forward (appendQuery parsed (query req)) (accept_of (accept req))), st))
          else (Inr (Forward targetUrl (accept_of (accept req))), st))"

text \<open>Line 404: \<^verbatim>\<open>(contentType.match(/charset=([^\s;]+)/i) || [])[1] || 'utf-8'\<close>.\<close>

definition charset_re :: regex where
  "charset_re = Seqs [Str ''charset='', Group 1 (Many1 (NoneOfWs '';''))]"

definition charset_of :: "string \<Rightarrow> string" where
  "charset_of contentType =
     (case match1 True charset_re contentType of
        None \<Rightarrow> ''utf-8''
      | Some cs \<Rightarrow> if group cs 1 = [] then ''utf-8'' else group cs 1)"

definition unknown_encoding :: "string \<Rightarrow> js_error" where
  "unknown_encoding charset = JsTypeError (''Unknown encoding: '' @ charset)"

text \<open>Lines 360 to 509: what the callback does on its first call.\<close>

definition respond ::
  "url_api \<Rightarrow> (string \<Rightarrow> string \<Rightarrow> string option) \<Rightarrow> (string \<Rightarrow> string \<Rightarrow> string)
     \<Rightarrow> string \<Rightarrow> fetch_outcome \<Rightarrow> event" where
  "respond newURL toText inject targetUrl outcome =
     (case outcome of
        Failed err \<Rightarrow>
          if message err = ''Too many redirects'' then
            Sent \<lparr>status = 508, payload = ErrorJson ''Too many redirects''\<rparr>
          else if message err = ''Request timed out'' then
            Sent \<lparr>status = 504, payload = ErrorJson ''Request timed out''\<rparr>
          else Sent \<lparr>status = 500, payload = ErrorJson (''Failed to fetch: '' @ message err)\<rparr>
      | Fetched r \<Rightarrow>
          (let contentType =
                 (case map_of (headers r) ''content-type'' of
                    None \<Rightarrow> ''text/html''
                  | Some t \<Rightarrow> if t = [] then ''text/html'' else t);
               final = (if finalUrl r = [] then targetUrl else finalUrl r)
           in
             if js_includes contentType ''text/html'' then
               (case toText (body r) (charset_of contentType) of
                  None \<Rightarrow> Uncaught (unknown_encoding (charset_of contentType))
                | Some html \<Rightarrow>
                    (case rewriteUrls newURL (stripTrackingElements html) final of
                       Inl e \<Rightarrow> Uncaught e
                     | Inr html' \<Rightarrow>
                         Sent \<lparr>status = statusCode r,
                               payload = Content contentType (inject html' final)\<rparr>))
             else if js_includes contentType ''text/css'' then
               (case toText (body r) ''utf-8'' of
                  None \<Rightarrow> Uncaught (unknown_encoding ''utf-8'')
                | Some css \<Rightarrow>
                    Sent \<lparr>status = statusCode r,
                          payload = Content contentType (rewriteCss newURL final css)\<rparr>)
             else if js_includes contentType ''javascript'' then
               (case toText (body r) ''utf-8'' of
                  None \<Rightarrow> Uncaught (unknown_encoding ''utf-8'')
                | Some js \<Rightarrow>
                    Sent \<lparr>status = statusCode r,
                          payload = Content contentType (rewriteJs newURL final js)\<rparr>)
             else Sent \<lparr>status = statusCode r, payload = Content contentType (body r)\<rparr>))"

text \<open>
  Lines 355 to 359: the flag \<^verbatim>\<open>responded\<close> and what reached the client so far. The
  requests and the uncaught exceptions of the fetcher pass through.
\<close>

definition deliver ::
  "(fetch_outcome \<Rightarrow> event) \<Rightarrow> bool \<times> event list \<Rightarrow> event \<Rightarrow> bool \<times> event list" where
  "deliver callback acc ev =
     (case ev of
        Callback outcome \<Rightarrow>
          if fst acc then acc else (True, snd acc @ [callback outcome])
      | _ \<Rightarrow> (fst acc, snd acc @ [ev]))"

definition proxy_callbacks :: "(fetch_outcome \<Rightarrow> event) \<Rightarrow> event list \<Rightarrow> event list" where
  "proxy_callbacks callback evs = snd (foldl (deliver callback) (False, []) evs)"

text \<open>The whole route: what happens, in order, and the state it leaves.\<close>

definition proxy_get ::
  "url_api \<Rightarrow> (string \<Rightarrow> bool) \<Rightarrow> (URL \<Rightarrow> (string \<times> string) list \<Rightarrow> string)
     \<Rightarrow> (string \<Rightarrow> string \<Rightarrow> string option) \<Rightarrow> (string \<Rightarrow> string \<Rightarrow> string) \<Rightarrow> upstream
     \<Rightarrow> ProxyState \<Rightarrow> request \<Rightarrow> event list \<times> ProxyState" where
  "proxy_get newURL isBlocked appendQuery toText inject net st req =
     (case proxy_dispatch newURL isBlocked appendQuery st req of
        (Inl e, st') \<Rightarrow> ([Thrown e], st')
      | (Inr (Reply r), st') \<Rightarrow> ([Sent r], st')
      | (Inr (Forward targetUrl acc), st') \<Rightarrow>
          (proxy_callbacks (respond newURL toText inject targetUrl)
             (fetchWithRedirects newURL net targetUrl 0 (Some acc)), st'))"

definition sent :: "event list \<Rightarrow> response list" where
  "sent evs = concat (map (\<lambda>ev. case ev of Sent r \<Rightarrow> [r] | _ \<Rightarrow> []) evs)"

definition requests :: "event list \<Rightarrow> string list" where
  "requests evs = concat (map (\<lambda>ev. case ev of Requested u \<Rightarrow> [u] | _ \<Rightarrow> []) evs)"

section \<open>Predicates used in the statements\<close>

definition is_callback :: "event \<Rightarrow> bool" where
  "is_callback ev = (case ev of Callback outcome \<Rightarrow> True | _ \<Rightarrow> False)"

text \<open>The events the fetcher itself can produce.\<close>

definition fetch_event :: "event \<Rightarrow> bool" where
  "fetch_event ev = (case ev of Sent r \<Rightarrow> False | Thrown e \<Rightarrow> False | _ \<Rightarrow> True)"

text \<open>
  Hop \<open>k\<close>, a request for \<open>u\<close>, is answered by a redirect to \<open>u'\<close>: the URL parses and is
  http(s), the transport delivers one response, its status is in 300 to 399 and its
  \<^verbatim>\<open>Location\<close>, resolved against \<open>u\<close>, is \<open>u'\<close>.
\<close>

definition redirect_hop ::
  "url_api \<Rightarrow> upstream \<Rightarrow> string option \<Rightarrow> nat \<Rightarrow> string \<Rightarrow> string \<Rightarrow> bool" where
  "redirect_hop newURL net options k u u' =
     (case newURL u None of
        None \<Rightarrow> False
      | Some p \<Rightarrow>
          (protocol p = ''https:'' \<or> protocol p = ''http:'') \<and>
          (case net k u (accept_of options) of
             [] \<Rightarrow> False
           | ev # evs \<Rightarrow>
               evs = [] \<and>
               (case ev of
                  Response code hdrs data \<Rightarrow>
                    300 \<le> code \<and> code < 400 \<and>
                    (case map_of hdrs ''location'' of
                       None \<Rightarrow> False
                     | Some location \<Rightarrow>
                         location \<noteq> [] \<and>
                         (case newURL location (Some u) of
                            None \<Rightarrow> False
                          | Some r \<Rightarrow> href r = u'))
                | _ \<Rightarrow> False)))"

text \<open>Hop \<open>k\<close>, a request for \<open>u\<close>, is answered by one response that is no redirect.\<close>

definition final_hop ::
  "url_api \<Rightarrow> upstream \<Rightarrow> string option \<Rightarrow> nat \<Rightarrow> string \<Rightarrow> nat
     \<Rightarrow> (string \<times> string) list \<Rightarrow> string \<Rightarrow> bool" where
  "final_hop newURL net options k u code hdrs data =
     (case newURL u None of
        None \<Rightarrow> False
      | Some p \<Rightarrow>
          (protocol p = ''https:'' \<or> protocol p = ''http:'') \<and>
          net k u (accept_of options) = [Response code hdrs data] \<and>
          (case map_of hdrs ''location'' of
             None \<Rightarrow> True
           | Some location \<Rightarrow> \<not> (300 \<le> code \<and> code < 400 \<and> location \<noteq> [])))"



section \<open>Example environments\<close>

text \<open>
  The values of the platform's URL constructor at the inputs of the examples below:
  what \<^verbatim>\<open>new URL(input, base)\<close> gives there, \<open>None\<close> where it throws. Inputs outside the
  table are not asked for by the examples.
\<close>

definition http_url :: "string \<Rightarrow> string \<Rightarrow> URL option" where
  "http_url host h = Some \<lparr>href = h, protocol = ''http:'', hostname = host\<rparr>"

definition url_table :: "((string \<times> string option) \<times> URL option) list" where
  \<open>url_table =
     [((''http://a.test/'', None), http_url ''a.test'' ''http://a.test/''),
      ((''http://a.test/'', Some ''http://a.test/''), http_url ''a.test'' ''http://a.test/''),
      ((''/proxy/http%3A%2F%2Fa.test%2F'', Some ''http://a.test/''),
         http_url ''a.test'' ''http://a.test/proxy/http%3A%2F%2Fa.test%2F''),
      ((''x.png'', Some ''http://a.test/''), http_url ''a.test'' ''http://a.test/x.png''),
      ((''about:blank'', Some ''http://a.test/''),
         Some \<lparr>href = ''about:blank'', protocol = ''about:'', hostname = []\<rparr>),
      ((''http://?a&b'', Some ''http://a.test/''), None),
      ((''not a url'', None), None),
      ((''http://example.com/a?x=1'', Some ''http://a.test/''),
         http_url ''example.com'' ''http://example.com/a?x=1''),
      ((''http://ads.test/pixel'', None), http_url ''ads.test'' ''http://ads.test/pixel''),
      ((''http://example.com'', Some ''http://a.test/''),
         http_url ''example.com'' ''http://example.com/''),
      ((''http://example.com/a?x=1'', None),
         http_url ''example.com'' ''http://example.com/a?x=1'')]\<close>

definition tableURL :: url_api where
  "tableURL input base = (case map_of url_table (input, base) of Some r \<Rightarrow> r | None \<Rightarrow> None)"

text \<open>A chain \<^verbatim>\<open>http://a.test/0\<close>, \<^verbatim>\<open>http://a.test/1\<close>, ... of \<open>n\<close> redirects, ended by
  a 200.\<close>

definition chain_url :: "nat \<Rightarrow> string" where
  "chain_url i = ''http://a.test/'' @ show_nat i"

definition chainURL :: url_api where
  "chainURL input base =
     (if input \<in> set (map chain_url [0..<12]) then http_url ''a.test'' input else None)"

definition chain_net :: "nat \<Rightarrow> upstream" where
  "chain_net n k url acc =
     (if k < n then [Response 302 [(''location'', chain_url (Suc k))] []]
      else [Response 200 [] ''done''])"

text \<open>A transport whose request times out and then raises \<^verbatim>\<open>error\<close> on the destroyed
  request.\<close>

definition hangup_net :: upstream where
  "hangup_net k url acc = [Timeout, RequestError (JsError ''socket hang up'')]"

definition no_net :: upstream where
  "no_net k url acc = []"

text \<open>An upstream that answers every request with an empty 204, and one that answers
  with a 200 and a plain text.\<close>

definition empty_204_net :: upstream where
  "empty_204_net k url acc = [Response 204 [(''content-type'', ''image/gif'')] []]"

definition plain_200_net :: upstream where
  "plain_200_net k url acc = [Response 200 [(''content-type'', ''text/plain'')] ''ok'']"

definition plain_text :: "string \<Rightarrow> string \<Rightarrow> string option" where
  "plain_text bytes charset = Some bytes"

definition no_inject :: "string \<Rightarrow> string \<Rightarrow> string" where
  "no_inject html final = html"

definition no_query :: "URL \<Rightarrow> (string \<times> string) list \<Rightarrow> string" where
  "no_query parsed entries = href parsed"

definition ads_blocked :: "string \<Rightarrow> bool" where
  "ads_blocked host \<longleftrightarrow> host = ''ads.test''"

section \<open>The admin toggle\<close>

text \<open>
  Claim C9. \<^verbatim>\<open>POST /adblock\<close> sets \<^verbatim>\<open>adBlockEnabled\<close> to false exactly when the \<^verbatim>\<open>enabled\<close>
  field of the parsed body is the boolean \<^verbatim>\<open>false\<close>; every other body (true, no such
  field, a value that is no boolean) sets it to true. The response reports the value
  just stored, and the counter is not touched.
\<close>

theorem adblock_toggle:
  "adBlockEnabled (fst (post_adblock st enabled)) = (enabled \<noteq> Some (JBool False)) \<and>
   snd (post_adblock st enabled)
     = \<lparr>status = 200, payload = EnabledJson (adBlockEnabled (fst (post_adblock st enabled)))\<rparr> \<and>
   blockedCount (fst (post_adblock st enabled)) = blockedCount st"
  by (simp add: post_adblock_def Let_def)

theorem adblock_toggle_witness:
  "adBlockEnabled (fst (post_adblock initial_state (Some (JBool False)))) = False \<and>
   adBlockEnabled (fst (post_adblock initial_state (Some (JBool True)))) = True \<and>
   adBlockEnabled (fst (post_adblock initial_state None)) = True \<and>
   adBlockEnabled (fst (post_adblock initial_state (Some (JString ''false'')))) = True \<and>
   payload (snd (post_adblock initial_state (Some (JBool False)))) = EnabledJson False"
  using adblock_toggle [of initial_state "Some (JBool False)"]
    adblock_toggle [of initial_state "Some (JBool True)"]
    adblock_toggle [of initial_state None]
    adblock_toggle [of initial_state "Some (JString ''false'')"]
  by simp

section \<open>One response per request\<close>

lemma deliver_other: "\<not> is_callback e \<Longrightarrow> deliver cb (b, out) e = (b, out @ [e])"
  by (cases e) (simp_all add: deliver_def is_callback_def)

lemma deliver_callback:
  "deliver cb (b, out) (Callback oc) = (if b then (b, out) else (True, out @ [cb oc]))"
  by (simp add: deliver_def)

lemma foldl_deliver_pre:
  "list_all (\<lambda>e. \<not> is_callback e) pre \<Longrightarrow>
     foldl (deliver cb) (b, out) (pre @ evs) = foldl (deliver cb) (b, out @ pre) evs"
  by (induction pre arbitrary: out) (simp_all add: deliver_other)

lemma foldl_deliver_responded:
  "foldl (deliver cb) (True, out) evs = (True, out @ filter (\<lambda>e. \<not> is_callback e) evs)"
proof (induction evs arbitrary: out)
  case Nil
  then show ?case by simp
next
  case (Cons e evs)
  show ?case
  proof (cases "is_callback e")
    case True
    then obtain oc where "e = Callback oc" by (cases e) (simp_all add: is_callback_def)
    then show ?thesis using Cons True by (simp add: deliver_callback)
  next
    case False
    then show ?thesis using Cons by (simp add: deliver_other)
  qed
qed

lemma callbacks_first:
  assumes "list_all (\<lambda>e. \<not> is_callback e) pre"
  shows "proxy_callbacks cb (pre @ Callback oc # post)
         = pre @ cb oc # filter (\<lambda>e. \<not> is_callback e) post"
  using foldl_deliver_pre [OF assms, of cb False "[]" "Callback oc # post"]
  by (simp add: proxy_callbacks_def deliver_callback foldl_deliver_responded)

lemma callbacks_none:
  assumes "list_all (\<lambda>e. \<not> is_callback e) evs"
  shows "proxy_callbacks cb evs = evs"
  using foldl_deliver_pre [OF assms, of cb False "[]" "[]"]
  by (simp add: proxy_callbacks_def)

lemma fetch_event_simps [simp]:
  "fetch_event (Requested u)" "fetch_event (Callback outcome)" "fetch_event (Uncaught e)"
  "\<not> fetch_event (Thrown e)" "\<not> fetch_event (Sent r)"
  by (simp_all add: fetch_event_def)

lemma fetch_events: "list_all fetch_event (fetchWithRedirects newURL net targetUrl redirectCount options)"
proof (induction newURL net targetUrl redirectCount options rule: fetchWithRedirects.induct)
  case (1 newURL net targetUrl redirectCount options)
  have hop: "list_all fetch_event
      (case ev of
         Response code hdrs data \<Rightarrow>
           (case map_of hdrs ''location'' of
              None \<Rightarrow>
                [Callback (Fetched \<lparr>statusCode = code, headers = hdrs, body = data,
                                     finalUrl = targetUrl\<rparr>)]
            | Some location \<Rightarrow>
                if 300 \<le> code \<and> code < 400 \<and> location \<noteq> [] then
                  (case newURL location (Some targetUrl) of
                     None \<Rightarrow> [Uncaught invalid_url]
                   | Some redirectUrl \<Rightarrow>
                       fetchWithRedirects newURL net (href redirectUrl) (redirectCount + 1)
                         options)
                else
                  [Callback (Fetched \<lparr>statusCode = code, headers = hdrs, body = data,
                                       finalUrl = targetUrl\<rparr>)])
       | RequestError err \<Rightarrow> [Callback (Failed err)]
       | Timeout \<Rightarrow> [Callback (Failed (JsError ''Request timed out''))])"
    if "\<not> MAX_REDIRECTS < redirectCount" and "newURL targetUrl None = Some p"
      and "\<not> (protocol p \<noteq> ''https:'' \<and> protocol p \<noteq> ''http:'')"
      and "ev \<in> set (net redirectCount targetUrl (accept_of options))" for p ev
    using "1.IH" [OF that] by (auto split: hop_event.splits option.splits)
  show ?case
    by (subst fetchWithRedirects.simps) (auto simp: list_all_iff dest: hop split: option.splits)
qed


lemma sent_append: "sent (xs @ ys) = sent xs @ sent ys"
  by (simp add: sent_def)

lemma sent_fetch_events: "list_all fetch_event evs \<Longrightarrow> sent evs = []"
  by (induction evs) (auto simp: sent_def split: event.splits)

lemma sent_single: "length (sent [ev]) \<le> 1"
  by (cases ev) (simp_all add: sent_def)

lemma sent_callbacks:
  assumes "list_all fetch_event evs"
  shows "length (sent (proxy_callbacks cb evs)) \<le> 1"
proof (cases "list_all (\<lambda>e. \<not> is_callback e) evs")
  case True
  then show ?thesis using assms by (simp add: callbacks_none sent_fetch_events)
next
  case False
  then have "\<exists>x \<in> set evs. is_callback x" by (simp add: list_all_iff)
  then obtain pre x post where evs: "evs = pre @ x # post" and x: "is_callback x"
    and pre: "\<forall>y \<in> set pre. \<not> is_callback y"
    using split_list_first_prop [of evs is_callback] by blast
  from x obtain oc where xc: "x = Callback oc" by (cases x) (simp_all add: is_callback_def)
  have p: "list_all (\<lambda>e. \<not> is_callback e) pre" using pre by (simp add: list_all_iff)
  have fp: "list_all fetch_event pre" and fq: "list_all fetch_event post"
    using assms evs by simp_all
  have fq': "list_all fetch_event (filter (\<lambda>e. \<not> is_callback e) post)"
    using fq by (simp add: list_all_iff)
  have "proxy_callbacks cb evs = pre @ [cb oc] @ filter (\<lambda>e. \<not> is_callback e) post"
    using callbacks_first [OF p, of cb oc post] evs xc by simp
  then have "sent (proxy_callbacks cb evs) = sent [cb oc]"
    by (simp only: sent_append sent_fetch_events [OF fp] sent_fetch_events [OF fq']) simp
  then show ?thesis
    using sent_single [of "cb oc"] by simp
qed

text \<open>
  Claim C10. A proxy request sends at most one response to the client, whatever the
  upstream and the platform do; and when the fetch callback is called again after its
  first call (a timeout followed by an \<^verbatim>\<open>error\<close> event on the destroyed request), the
  first call alone produces the response and the later calls are dropped.
\<close>

theorem single_response:
  "length (sent (fst (proxy_get newURL isBlocked appendQuery toText inject net st req))) \<le> 1 \<and>
   (list_all (\<lambda>e. \<not> is_callback e) pre \<longrightarrow>
      proxy_callbacks cb (pre @ Callback outcome # post)
        = pre @ cb outcome # filter (\<lambda>e. \<not> is_callback e) post)"
proof
  show "length (sent (fst (proxy_get newURL isBlocked appendQuery toText inject net st req))) \<le> 1"
  proof (cases "proxy_dispatch newURL isBlocked appendQuery st req")
    case (Pair d st')
    show ?thesis
    proof (cases d)
      case (Inl e)
      then show ?thesis using Pair by (simp add: proxy_get_def sent_def)
    next
      case (Inr a)
      show ?thesis
      proof (cases a)
        case (Reply r)
        then show ?thesis using Pair Inr by (simp add: proxy_get_def sent_def)
      next
        case (Forward t acc)
        then show ?thesis
          using Pair Inr
            sent_callbacks [OF fetch_events, of "respond newURL toText inject t" newURL net t 0 "Some acc"]
          by (simp add: proxy_get_def)
      qed
    qed
  qed
next
  show "list_all (\<lambda>e. \<not> is_callback e) pre \<longrightarrow>
      proxy_callbacks cb (pre @ Callback outcome # post)
        = pre @ cb outcome # filter (\<lambda>e. \<not> is_callback e) post"
    by (simp add: callbacks_first)
qed

theorem single_response_witness:
  "length (sent (fst (proxy_get tableURL ads_blocked no_query plain_text no_inject hangup_net
                        initial_state \<lparr>params0 = ''http%3A%2F%2Fa.test%2F'', query = [], accept = None\<rparr>))) \<le> 1 \<and>
   fst (proxy_get tableURL ads_blocked no_query plain_text no_inject hangup_net
          initial_state \<lparr>params0 = ''http%3A%2F%2Fa.test%2F'', query = [], accept = None\<rparr>)
     = [Requested ''http://a.test/'', Sent \<lparr>status = 504, payload = ErrorJson ''Request timed out''\<rparr>] \<and>
   proxy_callbacks (respond tableURL plain_text no_inject ''http://a.test/'')
      ([Requested ''http://a.test/''] @ Callback (Failed (JsError ''Request timed out''))
         # [Callback (Failed (JsError ''socket hang up''))])
     = [Requested ''http://a.test/'', Sent \<lparr>status = 504, payload = ErrorJson ''Request timed out''\<rparr>]"
proof -
  have pre: "list_all (\<lambda>e. \<not> is_callback e) [Requested ''http://a.test/'']"
    by (simp add: is_callback_def)
  have ev: "fst (proxy_get tableURL ads_blocked no_query plain_text no_inject hangup_net
          initial_state \<lparr>params0 = ''http%3A%2F%2Fa.test%2F'', query = [], accept = None\<rparr>)
     = [Requested ''http://a.test/'', Sent \<lparr>status = 504, payload = ErrorJson ''Request timed out''\<rparr>]"
    by code_simp
  show ?thesis
    using single_response [of tableURL ads_blocked no_query plain_text no_inject hangup_net
        initial_state "\<lparr>params0 = ''http%3A%2F%2Fa.test%2F'', query = [], accept = None\<rparr>"
        "[Requested ''http://a.test/'']" "respond tableURL plain_text no_inject ''http://a.test/''"
        "Failed (JsError ''Request timed out'')" "[Callback (Failed (JsError ''socket hang up''))]"]
      pre ev
    by (simp add: respond_def message_def is_callback_def)
qed

section \<open>The redirect bound\<close>

lemma fetch_redirect_step:
  assumes "redirect_hop newURL net options k u u'" and "k \<le> MAX_REDIRECTS"
  shows "fetchWithRedirects newURL net u k options
         = Requested u # fetchWithRedirects newURL net u' (Suc k) options"
proof -
  from assms(1) obtain p code hdrs data location r where
    p: "newURL u None = Some p" and
    proto: "protocol p = ''https:'' \<or> protocol p = ''http:''" and
    net: "net k u (accept_of options) = [Response code hdrs data]" and
    code: "300 \<le> code" "code < 400" and
    loc: "map_of hdrs ''location'' = Some location" "location \<noteq> []" and
    r: "newURL location (Some u) = Some r" "href r = u'"
    by (auto simp: redirect_hop_def split: option.splits list.splits hop_event.splits)
  show ?thesis
    using assms(2) p proto net code loc r
    by (subst fetchWithRedirects.simps) auto
qed

lemma fetch_final_step:
  assumes "final_hop newURL net options k u code hdrs data" and "k \<le> MAX_REDIRECTS"
  shows "fetchWithRedirects newURL net u k options
         = [Requested u, Callback (Fetched \<lparr>statusCode = code, headers = hdrs, body = data,
                                             finalUrl = u\<rparr>)]"
proof -
  from assms(1) obtain p where
    p: "newURL u None = Some p" and
    proto: "protocol p = ''https:'' \<or> protocol p = ''http:''" and
    net: "net k u (accept_of options) = [Response code hdrs data]" and
    nored: "case map_of hdrs ''location'' of None \<Rightarrow> True
            | Some location \<Rightarrow> \<not> (300 \<le> code \<and> code < 400 \<and> location \<noteq> [])"
    by (auto simp: final_hop_def split: option.splits)
  show ?thesis
    using assms(2) p proto net nored
    by (subst fetchWithRedirects.simps) (auto split: option.splits)
qed

lemma fetch_over_bound:
  "MAX_REDIRECTS < k \<Longrightarrow>
     fetchWithRedirects newURL net u k options = [Callback (Failed (JsError ''Too many redirects''))]"
  by (subst fetchWithRedirects.simps) simp

lemma fetch_chain:
  assumes "\<forall>i<n. redirect_hop newURL net options i (u i) (u (Suc i))" and "n \<le> Suc MAX_REDIRECTS"
  shows "fetchWithRedirects newURL net (u 0) 0 options
         = map (\<lambda>i. Requested (u i)) [0..<n] @ fetchWithRedirects newURL net (u n) n options"
  using assms
proof (induction n)
  case 0
  then show ?case by simp
next
  case (Suc n)
  then have ih: "fetchWithRedirects newURL net (u 0) 0 options
         = map (\<lambda>i. Requested (u i)) [0..<n] @ fetchWithRedirects newURL net (u n) n options"
    by simp
  have "redirect_hop newURL net options n (u n) (u (Suc n))" and "n \<le> MAX_REDIRECTS"
    using Suc.prems by simp_all
  from fetch_redirect_step [OF this] ih show ?case by simp
qed

text \<open>
  Claim C4. A hop is one redirect followed (the hop counter is \<^verbatim>\<open>redirectCount\<close>). Let
  the upstream answer the requests for \<open>u 0\<close>, ..., \<open>u (n - 1)\<close> with redirects to
  \<open>u 1\<close>, ..., \<open>u n\<close>. With \<open>n \<le> 10\<close> and a final answer for \<open>u n\<close> the fetcher
  requests \<open>u 0\<close> to \<open>u n\<close>, then calls back once with that answer and
  \<open>finalUrl = u n\<close>. With 11 redirects or more it requests \<open>u 0\<close> to \<open>u 10\<close>, never
  \<open>u 11\<close>, and calls back with \<^verbatim>\<open>Too many redirects\<close>, which the Dispatcher sends as
  status 508: the bound is checked before each request.
\<close>

theorem redirect_bound:
  assumes "list_all (\<lambda>i. redirect_hop newURL net options i (u i) (u (Suc i))) [0..<n]"
  shows "(n \<le> 10 \<and> final_hop newURL net options n (u n) code hdrs data \<longrightarrow>
            fetchWithRedirects newURL net (u 0) 0 options
              = map (\<lambda>i. Requested (u i)) [0..<Suc n]
                @ [Callback (Fetched \<lparr>statusCode = code, headers = hdrs, body = data,
                                        finalUrl = u n\<rparr>)]) \<and>
         (11 \<le> n \<longrightarrow>
            fetchWithRedirects newURL net (u 0) 0 options
              = map (\<lambda>i. Requested (u i)) [0..<11]
                @ [Callback (Failed (JsError ''Too many redirects''))] \<and>
            proxy_callbacks (respond newURL toText inject (u 0))
                (fetchWithRedirects newURL net (u 0) 0 options)
              = map (\<lambda>i. Requested (u i)) [0..<11]
                @ [Sent \<lparr>status = 508, payload = ErrorJson ''Too many redirects''\<rparr>])"
proof (intro conjI impI)
  from assms have hops: "\<forall>i<n. redirect_hop newURL net options i (u i) (u (Suc i))"
    by (simp add: list_all_iff)
  {
    assume a: "n \<le> 10 \<and> final_hop newURL net options n (u n) code hdrs data"
    then have "n \<le> Suc MAX_REDIRECTS" and le: "n \<le> MAX_REDIRECTS" by (simp_all add: MAX_REDIRECTS_def)
    from fetch_chain [OF hops this(1)] fetch_final_step [OF conjunct2 [OF a] le]
    show "fetchWithRedirects newURL net (u 0) 0 options
              = map (\<lambda>i. Requested (u i)) [0..<Suc n]
                @ [Callback (Fetched \<lparr>statusCode = code, headers = hdrs, body = data,
                                        finalUrl = u n\<rparr>)]"
      by simp
  }
  {
    assume b: "11 \<le> n"
    then have hops11: "\<forall>i<11. redirect_hop newURL net options i (u i) (u (Suc i))"
      using hops by simp
    have "(11::nat) \<le> Suc MAX_REDIRECTS" by (simp add: MAX_REDIRECTS_def)
    from fetch_chain [OF hops11 this] fetch_over_bound [of 11 newURL net "u 11" options]
    show tr: "fetchWithRedirects newURL net (u 0) 0 options
              = map (\<lambda>i. Requested (u i)) [0..<11]
                @ [Callback (Failed (JsError ''Too many redirects''))]"
      by (simp add: MAX_REDIRECTS_def)
    have pre: "list_all (\<lambda>e. \<not> is_callback e) (map (\<lambda>i. Requested (u i)) [0..<11])"
      by (simp add: list_all_iff is_callback_def)
    show "proxy_callbacks (respond newURL toText inject (u 0))
                (fetchWithRedirects newURL net (u 0) 0 options)
              = map (\<lambda>i. Requested (u i)) [0..<11]
                @ [Sent \<lparr>status = 508, payload = ErrorJson ''Too many redirects''\<rparr>]"
      unfolding tr
      using callbacks_first [OF pre, of "respond newURL toText inject (u 0)"
          "Failed (JsError ''Too many redirects'')" "[]"]
      by (simp add: respond_def message_def)
  }
qed

theorem redirect_bound_witness:
  "list_all (\<lambda>i. redirect_hop chainURL (chain_net 10) None i (chain_url i) (chain_url (Suc i))) [0..<10] \<and>
   final_hop chainURL (chain_net 10) None 10 (chain_url 10) 200 [] ''done'' \<and>
   fetchWithRedirects chainURL (chain_net 10) (chain_url 0) 0 None
     = map (\<lambda>i. Requested (chain_url i)) [0..<11]
       @ [Callback (Fetched \<lparr>statusCode = 200, headers = [], body = ''done'',
                               finalUrl = chain_url 10\<rparr>)] \<and>
   chain_url 10 = ''http://a.test/10'' \<and>
   list_all (\<lambda>i. redirect_hop chainURL (chain_net 11) None i (chain_url i) (chain_url (Suc i))) [0..<11] \<and>
   fetchWithRedirects chainURL (chain_net 11) (chain_url 0) 0 None
     = map (\<lambda>i. Requested (chain_url i)) [0..<11]
       @ [Callback (Failed (JsError ''Too many redirects''))] \<and>
   proxy_callbacks (respond chainURL plain_text no_inject (chain_url 0))
       (fetchWithRedirects chainURL (chain_net 11) (chain_url 0) 0 None)
     = map (\<lambda>i. Requested (chain_url i)) [0..<11]
       @ [Sent \<lparr>status = 508, payload = ErrorJson ''Too many redirects''\<rparr>]"
proof -
  have h10: "list_all (\<lambda>i. redirect_hop chainURL (chain_net 10) None i (chain_url i) (chain_url (Suc i))) [0..<10]"
    by code_simp
  have f10: "final_hop chainURL (chain_net 10) None 10 (chain_url 10) 200 [] ''done''"
    by code_simp
  have h11: "list_all (\<lambda>i. redirect_hop chainURL (chain_net 11) None i (chain_url i) (chain_url (Suc i))) [0..<11]"
    by code_simp
  have u10: "chain_url 10 = ''http://a.test/10''"
    by code_simp
  note ten = redirect_bound [OF h10, of 200 "[]" "''done''" plain_text no_inject]
  note eleven = redirect_bound [OF h11, of 200 "[]" "''done''" plain_text no_inject]
  have t10: "fetchWithRedirects chainURL (chain_net 10) (chain_url 0) 0 None
     = map (\<lambda>i. Requested (chain_url i)) [0..<11]
       @ [Callback (Fetched \<lparr>statusCode = 200, headers = [], body = ''done'',
                               finalUrl = chain_url 10\<rparr>)]"
    using mp [OF conjunct1 [OF ten]] f10 by simp
  have b: "(11::nat) \<le> 11" by simp
  note both = mp [OF conjunct2 [OF eleven] b]
  show ?thesis
    using h10 f10 t10 u10 h11 conjunct1 [OF both] conjunct2 [OF both] by blast
qed

section \<open>The blocklist gate\<close>

lemma respond_mirrors_status:
  assumes "respond newURL toText inject targetUrl (Fetched r) = Sent resp"
  shows "status resp = statusCode r"
proof -
  define t where "t = (case map_of (headers r) ''content-type'' of
                    None \<Rightarrow> ''text/html''
                  | Some t \<Rightarrow> if t = [] then ''text/html'' else t)"
  define final where "final = (if finalUrl r = [] then targetUrl else finalUrl r)"
  consider (html) "js_includes t ''text/html''"
    | (css) "\<not> js_includes t ''text/html''" "js_includes t ''text/css''"
    | (js) "\<not> js_includes t ''text/html''" "\<not> js_includes t ''text/css''" "js_includes t ''javascript''"
    | (other) "\<not> js_includes t ''text/html''" "\<not> js_includes t ''text/css''" "\<not> js_includes t ''javascript''"
    by blast
  then show ?thesis
  proof cases
    case html
    then show ?thesis using assms
      by (auto simp: respond_def t_def [symmetric] final_def [symmetric] split: option.splits sum.splits)
  next
    case css
    then show ?thesis using assms
      by (auto simp: respond_def t_def [symmetric] final_def [symmetric] split: option.splits)
  next
    case js
    then show ?thesis using assms
      by (auto simp: respond_def t_def [symmetric] final_def [symmetric] split: option.splits)
  next
    case other
    then show ?thesis using assms
      by (auto simp: respond_def t_def [symmetric] final_def [symmetric])
  qed
qed

lemma respond_failure:
  "respond newURL toText inject targetUrl (Failed err)
     = Sent \<lparr>status = (if message err = ''Too many redirects'' then 508
                        else if message err = ''Request timed out'' then 504 else 500),
              payload = ErrorJson (if message err = ''Too many redirects'' then ''Too many redirects''
                        else if message err = ''Request timed out'' then ''Request timed out''
                        else ''Failed to fetch: '' @ message err)\<rparr>"
  by (simp add: respond_def)

text \<open>
  Claim C5 as stated fails: with the gate off the status of the upstream is mirrored
  (lines 409, 425, 506, 508), so an upstream that answers the blocked host's request
  with 204 has its 204 returned to the client.
\<close>

theorem gate_off_204_counterexample:
  "decodeURIComponent ''http%3A%2F%2Fads.test%2Fpixel'' = Some ''http://ads.test/pixel'' \<and>
   tableURL ''http://ads.test/pixel'' None = http_url ''ads.test'' ''http://ads.test/pixel'' \<and>
   ads_blocked ''ads.test'' \<and>
   proxy_get tableURL ads_blocked no_query plain_text no_inject empty_204_net
       \<lparr>blockedCount = 0, adBlockEnabled = False\<rparr>
       \<lparr>params0 = ''http%3A%2F%2Fads.test%2Fpixel'', query = [], accept = None\<rparr>
     = ([Requested ''http://ads.test/pixel'',
         Sent \<lparr>status = 204, payload = Content ''image/gif'' []\<rparr>],
        \<lparr>blockedCount = 0, adBlockEnabled = False\<rparr>)"
proof -
  have "proxy_get tableURL ads_blocked no_query plain_text no_inject empty_204_net
       \<lparr>blockedCount = 0, adBlockEnabled = False\<rparr>
       \<lparr>params0 = ''http%3A%2F%2Fads.test%2Fpixel'', query = [], accept = None\<rparr>
     = ([Requested ''http://ads.test/pixel'',
         Sent \<lparr>status = 204, payload = Content ''image/gif'' []\<rparr>],
        \<lparr>blockedCount = 0, adBlockEnabled = False\<rparr>)"
    by code_simp
  moreover have "decodeURIComponent ''http%3A%2F%2Fads.test%2Fpixel'' = Some ''http://ads.test/pixel''"
    by code_simp
  moreover have "tableURL ''http://ads.test/pixel'' None = http_url ''ads.test'' ''http://ads.test/pixel''"
    by code_simp
  ultimately show ?thesis by (simp add: ads_blocked_def)
qed

text \<open>
  Claim C5, amended. For a request whose target parses to a hostname the gate blocks:
  with \<^verbatim>\<open>adBlockEnabled\<close> the route sends status 204 with no body, adds exactly 1 to
  \<^verbatim>\<open>blockedCount\<close> and does nothing else (no call of the fetcher); without it the
  handler calls the fetcher on the target (with the query entries appended if there
  are any) and leaves the state unchanged, and the response is what the callback makes
  of the fetch: a response built from a fetched answer has the status of that answer
  (204 only if the upstream said 204), a failure is reported as 508, 504 or 500, and
  an upstream that answers the first request with a final response gets that response
  passed on.
\<close>

theorem blocklist_gate:
  assumes "decodeURIComponent (params0 req) = Some targetUrl" and "targetUrl \<noteq> []"
    and "newURL targetUrl None = Some parsed" and "isBlocked (hostname parsed)"
  shows "(adBlockEnabled st \<longrightarrow>
            proxy_get newURL isBlocked appendQuery toText inject net st req
              = ([Sent \<lparr>status = 204, payload = NoBody\<rparr>],
                 st\<lparr>blockedCount := blockedCount st + 1\<rparr>)) \<and>
         (\<not> adBlockEnabled st \<longrightarrow>
            (let target = (if query req = [] then targetUrl else appendQuery parsed (query req));
                 options = Some (accept_of (accept req))
             in proxy_dispatch newURL isBlocked appendQuery st req
                  = (Inr (Forward target (accept_of (accept req))), st) \<and>
                proxy_get newURL isBlocked appendQuery toText inject net st req
                  = (proxy_callbacks (respond newURL toText inject target)
                       (fetchWithRedirects newURL net target 0 options), st) \<and>
                (\<forall>r resp. respond newURL toText inject target (Fetched r) = Sent resp \<longrightarrow>
                            status resp = statusCode r) \<and>
                (\<forall>err. \<exists>code text. respond newURL toText inject target (Failed err)
                            = Sent \<lparr>status = code, payload = ErrorJson text\<rparr> \<and>
                            (code = 508 \<or> code = 504 \<or> code = 500)) \<and>
                (\<forall>code hdrs data.
                   final_hop newURL net options 0 target code hdrs data \<longrightarrow>
                   fst (proxy_get newURL isBlocked appendQuery toText inject net st req)
                     = [Requested target,
                        respond newURL toText inject target
                          (Fetched \<lparr>statusCode = code, headers = hdrs, body = data,
                                    finalUrl = target\<rparr>)])))"
proof (intro conjI impI)
  assume on: "adBlockEnabled st"
  show "proxy_get newURL isBlocked appendQuery toText inject net st req
              = ([Sent \<lparr>status = 204, payload = NoBody\<rparr>],
                 st\<lparr>blockedCount := blockedCount st + 1\<rparr>)"
    using assms on by (simp add: proxy_get_def proxy_dispatch_def)
next
  assume off: "\<not> adBlockEnabled st"
  define target where "target = (if query req = [] then targetUrl else appendQuery parsed (query req))"
  define options where "options = Some (accept_of (accept req))"
  have d: "proxy_dispatch newURL isBlocked appendQuery st req
                  = (Inr (Forward target (accept_of (accept req))), st)"
    using assms off by (simp add: proxy_dispatch_def target_def)
  have g: "proxy_get newURL isBlocked appendQuery toText inject net st req
                  = (proxy_callbacks (respond newURL toText inject target)
                       (fetchWithRedirects newURL net target 0 options), st)"
    by (simp add: proxy_get_def d options_def)
  have m: "\<forall>r resp. respond newURL toText inject target (Fetched r) = Sent resp \<longrightarrow>
                            status resp = statusCode r"
    by (auto dest: respond_mirrors_status)
  have f: "\<forall>err. \<exists>code text. respond newURL toText inject target (Failed err)
                            = Sent \<lparr>status = code, payload = ErrorJson text\<rparr> \<and>
                            (code = 508 \<or> code = 504 \<or> code = 500)"
    by (simp add: respond_failure)
  have h: "\<forall>code hdrs data.
                   final_hop newURL net options 0 target code hdrs data \<longrightarrow>
                   fst (proxy_get newURL isBlocked appendQuery toText inject net st req)
                     = [Requested target,
                        respond newURL toText inject target
                          (Fetched \<lparr>statusCode = code, headers = hdrs, body = data,
                                    finalUrl = target\<rparr>)]"
  proof (intro allI impI)
    fix code hdrs data
    assume "final_hop newURL net options 0 target code hdrs data"
    then have "fetchWithRedirects newURL net target 0 options
         = [Requested target, Callback (Fetched \<lparr>statusCode = code, headers = hdrs, body = data,
                                             finalUrl = target\<rparr>)]"
      by (rule fetch_final_step) simp
    then show "fst (proxy_get newURL isBlocked appendQuery toText inject net st req)
                     = [Requested target,
                        respond newURL toText inject target
                          (Fetched \<lparr>statusCode = code, headers = hdrs, body = data,
                                    finalUrl = target\<rparr>)]"
      using callbacks_first [of "[Requested target]" "respond newURL toText inject target" _ "[]"]
      by (simp add: g is_callback_def)
  qed
  show "let target = (if query req = [] then targetUrl else appendQuery parsed (query req));
                 options = Some (accept_of (accept req))
             in proxy_dispatch newURL isBlocked appendQuery st req
                  = (Inr (Forward target (accept_of (accept req))), st) \<and>
                proxy_get newURL isBlocked appendQuery toText inject net st req
                  = (proxy_callbacks (respond newURL toText inject target)
                       (fetchWithRedirects newURL net target 0 options), st) \<and>
                (\<forall>r resp. respond newURL toText inject target (Fetched r) = Sent resp \<longrightarrow>
                            status resp = statusCode r) \<and>
                (\<forall>err. \<exists>code text. respond newURL toText inject target (Failed err)
                            = Sent \<lparr>status = code, payload = ErrorJson text\<rparr> \<and>
                            (code = 508 \<or> code = 504 \<or> code = 500)) \<and>
                (\<forall>code hdrs data.
                   final_hop newURL net options 0 target code hdrs data \<longrightarrow>
                   fst (proxy_get newURL isBlocked appendQuery toText inject net st req)
                     = [Requested target,
                        respond newURL toText inject target
                          (Fetched \<lparr>statusCode = code, headers = hdrs, body = data,
                                    finalUrl = target\<rparr>)])"
    using d g m f h unfolding Let_def target_def [symmetric] options_def [symmetric] by blast
qed

theorem blocklist_gate_witness:
  "decodeURIComponent ''http%3A%2F%2Fads.test%2Fpixel'' = Some ''http://ads.test/pixel'' \<and>
   tableURL ''http://ads.test/pixel'' None = http_url ''ads.test'' ''http://ads.test/pixel'' \<and>
   ads_blocked ''ads.test'' \<and>
   proxy_get tableURL ads_blocked no_query plain_text no_inject plain_200_net
       \<lparr>blockedCount = 0, adBlockEnabled = True\<rparr>
       \<lparr>params0 = ''http%3A%2F%2Fads.test%2Fpixel'', query = [], accept = None\<rparr>
     = ([Sent \<lparr>status = 204, payload = NoBody\<rparr>], \<lparr>blockedCount = 1, adBlockEnabled = True\<rparr>) \<and>
   final_hop tableURL plain_200_net (Some ''*/*'') 0 ''http://ads.test/pixel'' 200
       [(''content-type'', ''text/plain'')] ''ok'' \<and>
   proxy_get tableURL ads_blocked no_query plain_text no_inject plain_200_net
       \<lparr>blockedCount = 0, adBlockEnabled = False\<rparr>
       \<lparr>params0 = ''http%3A%2F%2Fads.test%2Fpixel'', query = [], accept = None\<rparr>
     = ([Requested ''http://ads.test/pixel'',
         Sent \<lparr>status = 200, payload = Content ''text/plain'' ''ok''\<rparr>],
        \<lparr>blockedCount = 0, adBlockEnabled = False\<rparr>)"
proof -
  have d: "decodeURIComponent (params0 \<lparr>params0 = ''http%3A%2F%2Fads.test%2Fpixel'', query = [], accept = None\<rparr>)
           = Some ''http://ads.test/pixel''"
    by code_simp
  have n: "''http://ads.test/pixel'' \<noteq> []" by simp
  have p: "tableURL ''http://ads.test/pixel'' None
           = Some \<lparr>href = ''http://ads.test/pixel'', protocol = ''http:'', hostname = ''ads.test''\<rparr>"
    by code_simp
  have b: "ads_blocked (hostname \<lparr>href = ''http://ads.test/pixel'', protocol = ''http:'', hostname = ''ads.test''\<rparr>)"
    by (simp add: ads_blocked_def)
  have f: "final_hop tableURL plain_200_net (Some ''*/*'') 0 ''http://ads.test/pixel'' 200
       [(''content-type'', ''text/plain'')] ''ok''"
    by code_simp
  have r: "respond tableURL plain_text no_inject ''http://ads.test/pixel''
             (Fetched \<lparr>statusCode = 200, headers = [(''content-type'', ''text/plain'')],
                       body = ''ok'', finalUrl = ''http://ads.test/pixel''\<rparr>)
           = Sent \<lparr>status = 200, payload = Content ''text/plain'' ''ok''\<rparr>"
    by code_simp
  note on = blocklist_gate [where isBlocked = ads_blocked and newURL = tableURL
          and st = "\<lparr>blockedCount = 0, adBlockEnabled = True\<rparr>" and appendQuery = no_query
          and toText = plain_text and inject = no_inject and net = plain_200_net, OF d n p b]
  note off = blocklist_gate [where isBlocked = ads_blocked and newURL = tableURL
          and st = "\<lparr>blockedCount = 0, adBlockEnabled = False\<rparr>" and appendQuery = no_query
          and toText = plain_text and inject = no_inject and net = plain_200_net, OF d n p b]
  have off': "\<not> adBlockEnabled \<lparr>blockedCount = 0, adBlockEnabled = False\<rparr>" by simp
  note gate_off = mp [OF conjunct2 [OF off [unfolded Let_def]] off']
  note mirrored = conjunct2 [OF conjunct2 [OF conjunct2 [OF conjunct2 [OF gate_off]]]]
  have f': "final_hop tableURL plain_200_net
       (Some (accept_of (accept \<lparr>params0 = ''http%3A%2F%2Fads.test%2Fpixel'', query = [], accept = None\<rparr>)))
       0
       (if query \<lparr>params0 = ''http%3A%2F%2Fads.test%2Fpixel'', query = [], accept = None\<rparr> = []
        then ''http://ads.test/pixel''
        else no_query \<lparr>href = ''http://ads.test/pixel'', protocol = ''http:'', hostname = ''ads.test''\<rparr>
               (query \<lparr>params0 = ''http%3A%2F%2Fads.test%2Fpixel'', query = [], accept = None\<rparr>))
       200 [(''content-type'', ''text/plain'')] ''ok''"
    using f by (simp add: accept_of_def)
  have ev: "fst (proxy_get tableURL ads_blocked no_query plain_text no_inject plain_200_net
       \<lparr>blockedCount = 0, adBlockEnabled = False\<rparr>
       \<lparr>params0 = ''http%3A%2F%2Fads.test%2Fpixel'', query = [], accept = None\<rparr>)
     = [Requested ''http://ads.test/pixel'',
         Sent \<lparr>status = 200, payload = Content ''text/plain'' ''ok''\<rparr>]"
    using mirrored [rule_format, OF f'] r by simp
  have st: "snd (proxy_get tableURL ads_blocked no_query plain_text no_inject plain_200_net
       \<lparr>blockedCount = 0, adBlockEnabled = False\<rparr>
       \<lparr>params0 = ''http%3A%2F%2Fads.test%2Fpixel'', query = [], accept = None\<rparr>)
     = \<lparr>blockedCount = 0, adBlockEnabled = False\<rparr>"
    using conjunct1 [OF conjunct2 [OF gate_off]] by simp
  have both: "proxy_get tableURL ads_blocked no_query plain_text no_inject plain_200_net
       \<lparr>blockedCount = 0, adBlockEnabled = False\<rparr>
       \<lparr>params0 = ''http%3A%2F%2Fads.test%2Fpixel'', query = [], accept = None\<rparr>
     = ([Requested ''http://ads.test/pixel'',
         Sent \<lparr>status = 200, payload = Content ''text/plain'' ''ok''\<rparr>],
        \<lparr>blockedCount = 0, adBlockEnabled = False\<rparr>)"
    using ev st by (simp add: prod_eq_iff)
  show ?thesis
    using on d p f both by (simp add: http_url_def ads_blocked_def)
qed

section \<open>Missing and unparseable targets\<close>

text \<open>
  Claim C6 as stated fails: the target \<^verbatim>\<open>not a url\<close> does not parse, yet the response
  is 500 (from the fetcher's \<^verbatim>\<open>catch\<close>, through the callback), not 400.
\<close>

theorem unparseable_target_counterexample:
  "decodeURIComponent ''not%20a%20url'' = Some ''not a url'' \<and>
   tableURL ''not a url'' None = None \<and>
   proxy_get tableURL ads_blocked no_query plain_text no_inject no_net initial_state
       \<lparr>params0 = ''not%20a%20url'', query = [], accept = None\<rparr>
     = ([Sent \<lparr>status = 500, payload = ErrorJson ''Failed to fetch: Invalid URL''\<rparr>],
        initial_state)"
  by code_simp

lemma fetch_unparseable:
  "newURL targetUrl None = None \<Longrightarrow>
     fetchWithRedirects newURL net targetUrl 0 options = [Callback (Failed invalid_url)]"
  by (subst fetchWithRedirects.simps) (simp add: MAX_REDIRECTS_def)

text \<open>
  Claim C6, amended. A missing (empty) target is answered by status 400 and the body
  \<^verbatim>\<open>{error: 'Missing target URL'}\<close> with no call of the fetcher. A target that is not
  empty and does not parse, on a request without query entries, is handed to the
  fetcher, which issues no upstream request and reports the failure; the response is
  status 500 with the body \<^verbatim>\<open>{error: 'Failed to fetch: Invalid URL'}\<close>.
\<close>

theorem bad_target:
  "(decodeURIComponent (params0 req) = Some [] \<longrightarrow>
      proxy_get newURL isBlocked appendQuery toText inject net st req
        = ([Sent \<lparr>status = 400, payload = ErrorJson ''Missing target URL''\<rparr>], st)) \<and>
   (decodeURIComponent (params0 req) = Some targetUrl \<and> targetUrl \<noteq> [] \<and>
    newURL targetUrl None = None \<and> query req = [] \<longrightarrow>
      proxy_get newURL isBlocked appendQuery toText inject net st req
        = ([Sent \<lparr>status = 500, payload = ErrorJson ''Failed to fetch: Invalid URL''\<rparr>], st) \<and>
      requests (fetchWithRedirects newURL net targetUrl 0 (Some (accept_of (accept req)))) = [])"
proof (intro conjI impI)
  assume "decodeURIComponent (params0 req) = Some []"
  then show "proxy_get newURL isBlocked appendQuery toText inject net st req
        = ([Sent \<lparr>status = 400, payload = ErrorJson ''Missing target URL''\<rparr>], st)"
    by (simp add: proxy_get_def proxy_dispatch_def)
next
  assume a: "decodeURIComponent (params0 req) = Some targetUrl \<and> targetUrl \<noteq> [] \<and>
    newURL targetUrl None = None \<and> query req = []"
  then have d: "proxy_dispatch newURL isBlocked appendQuery st req
      = (Inr (Forward targetUrl (accept_of (accept req))), st)"
    by (simp add: proxy_dispatch_def)
  have f: "fetchWithRedirects newURL net targetUrl 0 (Some (accept_of (accept req)))
      = [Callback (Failed invalid_url)]"
    using a by (simp add: fetch_unparseable)
  show "proxy_get newURL isBlocked appendQuery toText inject net st req
        = ([Sent \<lparr>status = 500, payload = ErrorJson ''Failed to fetch: Invalid URL''\<rparr>], st)"
    using callbacks_first [of "[]" "respond newURL toText inject targetUrl" "Failed invalid_url" "[]"]
    by (simp add: proxy_get_def d f respond_def invalid_url_def message_def)
  show "requests (fetchWithRedirects newURL net targetUrl 0 (Some (accept_of (accept req)))) = []"
    by (simp add: f requests_def)
qed

theorem bad_target_witness:
  "decodeURIComponent [] = Some [] \<and>
   proxy_get tableURL ads_blocked no_query plain_text no_inject no_net initial_state
       \<lparr>params0 = [], query = [], accept = None\<rparr>
     = ([Sent \<lparr>status = 400, payload = ErrorJson ''Missing target URL''\<rparr>], initial_state) \<and>
   decodeURIComponent ''not%20a%20url'' = Some ''not a url'' \<and>
   tableURL ''not a url'' None = None \<and>
   proxy_get tableURL ads_blocked no_query plain_text no_inject no_net initial_state
       \<lparr>params0 = ''not%20a%20url'', query = [], accept = None\<rparr>
     = ([Sent \<lparr>status = 500, payload = ErrorJson ''Failed to fetch: Invalid URL''\<rparr>],
        initial_state)"
proof -
  have d0: "decodeURIComponent [] = Some []" by code_simp
  have d1: "decodeURIComponent ''not%20a%20url'' = Some ''not a url''" by code_simp
  have u: "tableURL ''not a url'' None = None" by code_simp
  show ?thesis
    using bad_target [of "\<lparr>params0 = [], query = [], accept = None\<rparr>" tableURL ads_blocked
        no_query plain_text no_inject no_net initial_state "[]"]
      bad_target [of "\<lparr>params0 = ''not%20a%20url'', query = [], accept = None\<rparr>" tableURL
        ads_blocked no_query plain_text no_inject no_net initial_state "''not a url''"]
      d0 d1 u
    by simp
qed

section \<open>The percent-encoding round trip\<close>






















section \<open>The scan of a replace\<close>

lemma take_drop_length: "take k r @ drop (length (take k r)) r = r"
  by (simp add: min_def)

lemma raw_text_simps [simp]:
  "raw_text (Skipped c) = [c]" "raw_text (Matched m cs) = m"
  by (simp_all add: raw_text_def)

lemma segments_miss:
  "rmatch ic re (MState l r []) = [] \<Longrightarrow>
     segments ic re l r
       = (case r of [] \<Rightarrow> [] | c # cs \<Rightarrow> Skipped c # segments ic re (c # l) cs)"
  by (subst segments.simps) simp

lemma segments_empty_hit:
  "rmatch ic re (MState l r []) = st # sts \<Longrightarrow> take (length r - length (rest st)) r = [] \<Longrightarrow>
     segments ic re l r
       = Matched [] (caps st)
           # (case r of [] \<Rightarrow> [] | c # cs \<Rightarrow> Skipped c # segments ic re (c # l) cs)"
  by (subst segments.simps) (simp add: Let_def)

lemma segments_hit:
  "rmatch ic re (MState l r []) = st # sts \<Longrightarrow> m = take (length r - length (rest st)) r \<Longrightarrow>
     m \<noteq> [] \<Longrightarrow>
     segments ic re l r = Matched m (caps st) # segments ic re (rev m @ l) (drop (length m) r)"
  by (subst segments.simps) (simp add: Let_def)

lemma segments_text: "concat (map raw_text (segments ic re l r)) = r"
proof (induction ic re l r rule: segments.induct)
  case (1 ic re l r)
  show ?case
  proof (cases "rmatch ic re (MState l r [])")
    case Nil
    show ?thesis
    proof (cases r)
      case rn: Nil
      show ?thesis unfolding segments_miss [OF Nil] using rn by simp
    next
      case (Cons c cs)
      show ?thesis unfolding segments_miss [OF Nil] using Cons "1.IH"(1) [OF Nil Cons] by simp
    qed
  next
    case hit: (Cons st sts)
    define m where "m = take (length r - length (rest st)) r"
    show ?thesis
    proof (cases "m = []")
      case True
      then have e: "take (length r - length (rest st)) r = []" by (simp add: m_def)
      show ?thesis
      proof (cases r)
        case Nil
        show ?thesis unfolding segments_empty_hit [OF hit e] using Nil by simp
      next
        case (Cons c cs)
        show ?thesis unfolding segments_empty_hit [OF hit e]
          using Cons "1.IH"(2) [OF hit m_def True Cons] by simp
      qed
    next
      case False
      have "m @ drop (length m) r = r" unfolding m_def by (rule take_drop_length)
      then show ?thesis unfolding segments_hit [OF hit m_def False]
        using "1.IH"(3) [OF hit m_def False] by simp
    qed
  qed
qed

lemma replace_identity:
  assumes "list_all (\<lambda>g. case g of Skipped c \<Rightarrow> True | Matched m cs \<Rightarrow> f m cs = m)
             (segments ic re [] s)"
  shows "replace_g ic re f s = s"
proof -
  have "map (\<lambda>g. case g of Skipped c \<Rightarrow> [c] | Matched m cs \<Rightarrow> f m cs) (segments ic re [] s)
        = map raw_text (segments ic re [] s)"
    using assms by (intro map_cong) (auto simp: list_all_iff split: segment.splits)
  then show ?thesis by (simp only: replace_g_def segments_text)
qed

section \<open>References that rewriting should leave alone\<close>

text \<open>
  Claim C3. The guard of the attribute step (lines 131 and 138) lists \<^verbatim>\<open>data:\<close>,
  \<^verbatim>\<open>javascript:\<close> and \<^verbatim>\<open>#\<close>, not \<^verbatim>\<open>about:\<close> or \<^verbatim>\<open>blob:\<close>, which \<^verbatim>\<open>needsProxy\<close> of the
  injected script (line 245) does list: \<^verbatim>\<open>about:blank\<close> in a \<^verbatim>\<open>src\<close> attribute is rewritten.
  A \<^verbatim>\<open>data:\<close> reference passes the attribute step, but the \<^verbatim>\<open>url()\<close> step that runs
  over the whole document afterwards rewrites inside it.
\<close>

theorem exempt_scheme_rewritten:
  \<open>rewriteUrls tableURL ''<iframe src="about:blank"></iframe>'' ''http://a.test/''
     = Inr ''<iframe src="/proxy/about%3Ablank"></iframe>'' \<and>
   rewriteUrls tableURL ''<img src="data:image/svg+xml,url(x.png)">'' ''http://a.test/''
     = Inr ''<img src="data:image/svg+xml,url('/proxy/http%3A%2F%2Fa.test%2Fx.png')">''\<close>
  by code_simp

section \<open>The tracking pixel pattern\<close>

text \<open>
  Claim C7. The pattern of line 180 asks for a value that starts with 1, not for the
  value 1: the stripper removes the 1 by 1 image in either attribute order, and also
  the 100 by 100 image that the claim says stays.
\<close>

theorem tracking_pixel_overreach:
  \<open>stripTrackingElements ''<img width="100" height="100" src="a.png">'' = [] \<and>
   stripTrackingElements ''<img width="1" height="1" src="a.png">'' = [] \<and>
   stripTrackingElements ''<img height="1" width="1" src="a.png">'' = []\<close>
  by code_simp

section \<open>Rewriting twice\<close>

text \<open>
  Claim C1. \<^verbatim>\<open>toProxyUrl\<close> does not look for the proxy prefix: the rewrite of a document
  that is already rewritten wraps the reference again, here with the same base.
\<close>

theorem rewrite_not_idempotent:
  \<open>toProxyUrl tableURL ''http://a.test/'' ''/proxy/http%3A%2F%2Fa.test%2F''
     = ''/proxy/http%3A%2F%2Fa.test%2Fproxy%2Fhttp%253A%252F%252Fa.test%252F'' \<and>
   rewriteUrls tableURL ''<a href="http://a.test/">x</a>'' ''http://a.test/''
     = Inr ''<a href="/proxy/http%3A%2F%2Fa.test%2F">x</a>'' \<and>
   rewriteUrls tableURL ''<a href="/proxy/http%3A%2F%2Fa.test%2F">x</a>'' ''http://a.test/''
     = Inr ''<a href="/proxy/http%3A%2F%2Fa.test%2Fproxy%2Fhttp%253A%252F%252Fa.test%252F">x</a>''\<close>
  by code_simp

section \<open>A reference that does not resolve\<close>

text \<open>
  Claim C8. \<^verbatim>\<open>http://?a&b\<close> has no host and does not resolve. The reference is left in
  place, the rest of the document is rewritten and nothing is thrown, but what is left
  is the entity-decoded text, not the original \<^verbatim>\<open>http://?a&amp;b\<close>.
\<close>

theorem failed_reference_decoded:
  \<open>tableURL ''http://?a&b'' (Some ''http://a.test/'') = None \<and>
   rewriteUrls tableURL ''<a href="http://?a&amp;b">x</a><img src="x.png">'' ''http://a.test/''
     = Inr ''<a href="http://?a&b">x</a><img src="/proxy/http%3A%2F%2Fa.test%2Fx.png">''\<close>
  by code_simp

end
